theory Spec2Isabelle
  imports Main "HOL-Library.Finite_Map" "HOL-Library.Monad_Syntax"
begin

section \<open>Build-container metadata of buildah: data model\<close>

text \<open>
  The development embeds \<^verbatim>\<open>buildah.go\<close> (the Builder record, OpenBuilder,
  OpenBuilderByPath, Save) and \<^verbatim>\<open>cmd/buildah/config.go\<close> (updateConfig).

  Conventions of the embedding:
  \<^item> a Go \<^verbatim>\<open>string\<close> is a \<open>string\<close>, read as valid UTF-8 text (encoding/json replaces
    bytes that are not valid UTF-8 while encoding; such strings are not represented);
  \<^item> a Go slice is a list: nil and the empty slice are both \<open>[]\<close>, since the program never
    compares a slice with nil and \<^verbatim>\<open>len\<close>, \<^verbatim>\<open>range\<close> and \<^verbatim>\<open>append\<close> treat them alike;
  \<^item> a Go map is a finite map under \<open>option\<close>: \<open>None\<close> is the nil map, which updateConfig
    tests for before it writes;
  \<^item> a byte string handed to encoding/json is represented by what its scanner makes of it:
    \<open>Malformed\<close>, or the JSON value it denotes, with an object as the finite map of its
    members and a number as its literal;
  \<^item> a function returning \<^verbatim>\<open>(T, error)\<close> returns a \<open>result\<close>, with a branch of its own
    for a run-time panic.
\<close>

subsection \<open>Constants\<close>

definition Package :: string where
  "Package = ''buildah''"

definition containerType :: string where
  "containerType = Package @ '' 0.0.0''"

definition stateFile :: string where
  "stateFile = Package @ ''.json''"

subsection \<open>JSON values and errors\<close>

datatype json =
    JNull
  | JBool bool
  | JNumber string
  | JString string
  | JArray "json list"
  | JObject "(string, json) fmap"

datatype bytes = Malformed | Json json

text \<open>
  The values an \<^verbatim>\<open>interface{}\<close> entry of Expose holds in this program: the marker
  \<^verbatim>\<open>struct{}{}\<close> that updateConfig stores, a value encoding/json decoded (kept as the JSON
  value it stands for), or a value of a kind encoding/json cannot encode (a channel, a
  function), which any caller of the package may store in the exported field.
\<close>

datatype iface = EmptyStruct | Decoded json | Unsupported

datatype error =
    DecodeError
  | EncodeError
  | NotBuildahContainer
  | ErrContainerUnknown
  | StoreError string
  | PathError string
  | ParseError string

datatype 'a result = Ok 'a | Error error | Panic | Killed

subsection \<open>The Store, as the code consumes it\<close>

record storage_Container =
  ID :: string

record Store =
  Containers :: "error + storage_Container list"
  GetMetadata :: "string \<Rightarrow> error + bytes"
  GetContainerDirectory :: "string \<Rightarrow> error + string"

type_synonym filesystem = "string \<rightharpoonup> bytes"

subsection \<open>The Builder record\<close>

record Builder =
  store :: "Store option"
  Type :: string
  FromImage :: string
  Config :: string
  Manifest :: string
  Container :: string
  ContainerID :: string
  MountPoint :: string
  Mounts :: "string list"
  Links :: "string list"
  Annotations :: "(string, string) fmap option"
  CreatedBy :: string
  OS :: string
  Architecture :: string
  Maintainer :: string
  User :: string
  Workdir :: string
  Env :: "string list"
  Cmd :: "string list"
  Entrypoint :: "string list"
  Expose :: "(string, iface) fmap option"
  Labels :: "(string, string) fmap option"
  Volumes :: "string list"
  Arg :: "(string, string) fmap option"

text \<open>The value of \<^verbatim>\<open>&Builder{}\<close>: every field is the zero value of its type.\<close>

definition zero_Builder :: Builder where
  "zero_Builder = \<lparr> store = None, Type = [], FromImage = [], Config = [], Manifest = [],
     Container = [], ContainerID = [], MountPoint = [], Mounts = [], Links = [],
     Annotations = None, CreatedBy = [], OS = [], Architecture = [], Maintainer = [],
     User = [], Workdir = [], Env = [], Cmd = [], Entrypoint = [], Expose = None,
     Labels = None, Volumes = [], Arg = None \<rparr>"

section \<open>The configuration update (cmd/buildah/config.go)\<close>

text \<open>
  The part of \<^verbatim>\<open>cli.Context\<close> that updateConfig reads: whether a flag was given, and its
  value as a string or as a list of strings.
\<close>

record Context =
  IsSet :: "string \<Rightarrow> bool"
  String :: "string \<Rightarrow> string"
  StringSlice :: "string \<Rightarrow> string list"

text \<open>
  \<^verbatim>\<open>logrus.Errorf("error parsing --<flag> %q: %v", value, err)\<close>: the flag, the string
  that did not parse and the tokenizer's error.
\<close>

datatype log_entry = ErrorParsing string string error

text \<open>
  \<^verbatim>\<open>strings.SplitN(s, "=", 2)\<close>: the scan of \<^verbatim>\<open>genSplit\<close> for the first separator. With no
  separator the result has the one element \<open>s\<close>; otherwise it has the text before the first
  separator and the text after it. \<open>before\<close> holds the bytes already passed.
\<close>

fun genSplit :: "string \<Rightarrow> string \<Rightarrow> string list" where
  "genSplit before [] = [before]"
| "genSplit before (x # xs) =
     (if x = CHR ''='' then [before, xs] else genSplit (before @ [x]) xs)"

definition SplitN :: "string \<Rightarrow> string list" where
  "SplitN s = genSplit [] s"

definition update_author :: "Context \<Rightarrow> Builder \<Rightarrow> Builder" where
  "update_author c builder =
     (if IsSet c ''author'' then builder\<lparr>Maintainer := String c ''author''\<rparr> else builder)"

definition update_created_by :: "Context \<Rightarrow> Builder \<Rightarrow> Builder" where
  "update_created_by c builder =
     (if IsSet c ''created-by'' then builder\<lparr>CreatedBy := String c ''created-by''\<rparr>
      else builder)"

definition update_arch :: "Context \<Rightarrow> Builder \<Rightarrow> Builder" where
  "update_arch c builder =
     (if IsSet c ''arch'' then builder\<lparr>Architecture := String c ''arch''\<rparr> else builder)"

definition update_os :: "Context \<Rightarrow> Builder \<Rightarrow> Builder" where
  "update_os c builder =
     (if IsSet c ''os'' then builder\<lparr>OS := String c ''os''\<rparr> else builder)"

definition update_user :: "Context \<Rightarrow> Builder \<Rightarrow> Builder" where
  "update_user c builder =
     (if IsSet c ''user'' then builder\<lparr>User := String c ''user''\<rparr> else builder)"

text \<open>
  The three map updates first replace a nil map by an empty one, then run their loop on the
  map, which is therefore never nil when it is written.
\<close>

definition make_if_nil :: "('k, 'v) fmap option \<Rightarrow> ('k, 'v) fmap" where
  "make_if_nil m = (case m of None \<Rightarrow> fmempty | Some m' \<Rightarrow> m')"

definition update_port :: "Context \<Rightarrow> Builder \<Rightarrow> Builder" where
  "update_port c builder =
     (if IsSet c ''port''
      then builder\<lparr>Expose :=
             Some (fold (\<lambda>portSpec m. fmupd portSpec EmptyStruct m)
                     (StringSlice c ''port'') (make_if_nil (Expose builder)))\<rparr>
      else builder)"

definition update_env :: "Context \<Rightarrow> Builder \<Rightarrow> Builder" where
  "update_env c builder =
     (if IsSet c ''env''
      then fold (\<lambda>envSpec b. b\<lparr>Env := Env b @ [envSpec]\<rparr>) (StringSlice c ''env'') builder
      else builder)"

definition update_entrypoint ::
  "(string \<Rightarrow> error + string list) \<Rightarrow> Context \<Rightarrow> Builder \<Rightarrow> Builder \<times> log_entry list" where
  "update_entrypoint Parse c builder =
     (if IsSet c ''entrypoint''
      then (case Parse (String c ''entrypoint'') of
              Inl err \<Rightarrow> (builder, [ErrorParsing ''entrypoint'' (String c ''entrypoint'') err])
            | Inr entrypointSpec \<Rightarrow> (builder\<lparr>Entrypoint := entrypointSpec\<rparr>, []))
      else (builder, []))"

definition update_cmd ::
  "(string \<Rightarrow> error + string list) \<Rightarrow> Context \<Rightarrow> Builder \<Rightarrow> Builder \<times> log_entry list" where
  "update_cmd Parse c builder =
     (if IsSet c ''cmd''
      then (case Parse (String c ''cmd'') of
              Inl err \<Rightarrow> (builder, [ErrorParsing ''cmd'' (String c ''cmd'') err])
            | Inr cmdSpec \<Rightarrow> (builder\<lparr>Cmd := cmdSpec\<rparr>, []))
      else (builder, []))"

definition update_volume :: "Context \<Rightarrow> Builder \<Rightarrow> Builder" where
  "update_volume c builder =
     (if IsSet c ''volume''
      then fold (\<lambda>volSpec b. b\<lparr>Volumes := Volumes b @ [volSpec]\<rparr>)
             (StringSlice c ''volume'') builder
      else builder)"

text \<open>
  The body of the label loop and of the annotation loop: split the entry, then store the
  pair when the split has two parts and delete the key otherwise.
\<close>

definition set_or_delete :: "string \<Rightarrow> (string, string) fmap \<Rightarrow> (string, string) fmap" where
  "set_or_delete spec m =
     (let label = SplitN spec
      in if length label > 1 then fmupd (label ! 0) (label ! 1) m
         else fmdrop (label ! 0) m)"

definition update_label :: "Context \<Rightarrow> Builder \<Rightarrow> Builder" where
  "update_label c builder =
     (if IsSet c ''label''
      then builder\<lparr>Labels :=
             Some (fold set_or_delete (StringSlice c ''label'') (make_if_nil (Labels builder)))\<rparr>
      else builder)"

definition update_workingdir :: "Context \<Rightarrow> Builder \<Rightarrow> Builder" where
  "update_workingdir c builder =
     (if IsSet c ''workingdir'' then builder\<lparr>Workdir := String c ''workingdir''\<rparr>
      else builder)"

definition update_annotation :: "Context \<Rightarrow> Builder \<Rightarrow> Builder" where
  "update_annotation c builder =
     (if IsSet c ''annotation''
      then builder\<lparr>Annotations :=
             Some (fold set_or_delete (StringSlice c ''annotation'')
                     (make_if_nil (Annotations builder)))\<rparr>
      else builder)"

text \<open>
  updateConfig runs the thirteen updates in the order of the source. \<open>Parse\<close> is
  \<^verbatim>\<open>shellwords.Parse\<close>, the tokenizer of another package; the result pairs the updated
  Builder with what was logged.
\<close>

definition updateConfig ::
  "(string \<Rightarrow> error + string list) \<Rightarrow> Builder \<Rightarrow> Context \<Rightarrow> Builder \<times> log_entry list" where
  "updateConfig Parse builder c =
     (let b1 = update_env c (update_port c (update_user c (update_os c (update_arch c
                 (update_created_by c (update_author c builder))))));
          (b2, log1) = update_entrypoint Parse c b1;
          (b3, log2) = update_cmd Parse c b2;
          b4 = update_annotation c (update_workingdir c (update_label c (update_volume c b3)))
      in (b4, log1 @ log2))"

section \<open>The metadata encoding (encoding/json on the Builder record)\<close>

subsection \<open>base64, for the two byte-slice fields\<close>

definition encodeStd :: string where
  "encodeStd = ''ABCDEFGHIJKLMNOPQRSTUVWXYZabcdefghijklmnopqrstuvwxyz0123456789+/''"

text \<open>Three bytes become four characters; one or two trailing bytes are padded.\<close>

fun b64_encode :: "string \<Rightarrow> string" where
  "b64_encode [] = []"
| "b64_encode [a] =
     (let x = (of_char a :: nat)
      in [encodeStd ! (x div 4), encodeStd ! ((x mod 4) * 16), CHR ''='', CHR ''=''])"
| "b64_encode [a, b] =
     (let x = (of_char a :: nat); y = (of_char b :: nat)
      in [encodeStd ! (x div 4), encodeStd ! ((x mod 4) * 16 + y div 16),
          encodeStd ! ((y mod 16) * 4), CHR ''=''])"
| "b64_encode (a # b # c # rest) =
     (let x = (of_char a :: nat); y = (of_char b :: nat); z = (of_char c :: nat)
      in [encodeStd ! (x div 4), encodeStd ! ((x mod 4) * 16 + y div 16),
          encodeStd ! ((y mod 16) * 4 + z div 64), encodeStd ! (z mod 64)]
         @ b64_encode rest)"

fun index_of :: "'a \<Rightarrow> 'a list \<Rightarrow> nat option" where
  "index_of c [] = None"
| "index_of c (x # xs) = (if x = c then Some 0 else map_option Suc (index_of c xs))"

definition decodeMap :: "char \<Rightarrow> nat option" where
  "decodeMap c = index_of c encodeStd"

text \<open>
  The decoder reads quanta of four characters; padding is accepted in the last quantum
  only, and nothing may follow it.
\<close>

fun decode_quanta :: "string \<Rightarrow> string option" where
  "decode_quanta [] = Some []"
| "decode_quanta (a # b # c # d # rest) =
     (case (decodeMap a, decodeMap b) of
        (Some x, Some y) \<Rightarrow>
          if c = CHR ''=''
          then (if d = CHR ''='' \<and> rest = [] then Some [char_of (x * 4 + y div 16)] else None)
          else (case decodeMap c of
                  None \<Rightarrow> None
                | Some z \<Rightarrow>
                    if d = CHR ''=''
                    then (if rest = []
                          then Some [char_of (x * 4 + y div 16),
                                     char_of ((y mod 16) * 16 + z div 4)]
                          else None)
                    else (case decodeMap d of
                            None \<Rightarrow> None
                          | Some w \<Rightarrow>
                              map_option
                                (\<lambda>r. [char_of (x * 4 + y div 16),
                                      char_of ((y mod 16) * 16 + z div 4),
                                      char_of ((z mod 4) * 64 + w)] @ r)
                                (decode_quanta rest)))
      | _ \<Rightarrow> None)"
| "decode_quanta _ = None"

text \<open>Carriage returns and line feeds in the input are skipped.\<close>

definition b64_decode :: "string \<Rightarrow> string option" where
  "b64_decode s = decode_quanta (filter (\<lambda>c. c \<noteq> CHR 0x0A \<and> c \<noteq> CHR 0x0D) s)"

subsection \<open>Marshal\<close>

text \<open>
  A field tagged \<^verbatim>\<open>omitempty\<close> is left out when it is the empty string, an empty slice or
  a map without entries (nil or not). \<open>None\<close> is "no member".
\<close>

definition enc_string :: "string \<Rightarrow> json option" where
  "enc_string s = (if s = [] then None else Some (JString s))"

definition enc_bytes :: "string \<Rightarrow> json option" where
  "enc_bytes s = (if s = [] then None else Some (JString (b64_encode s)))"

definition enc_strings :: "string list \<Rightarrow> json option" where
  "enc_strings xs = (if xs = [] then None else Some (JArray (map JString xs)))"

definition enc_string_map :: "(string, string) fmap option \<Rightarrow> json option" where
  "enc_string_map m =
     (case m of
        None \<Rightarrow> None
      | Some m' \<Rightarrow> if m' = fmempty then None else Some (JObject (fmmap JString m')))"

definition encodable :: "iface \<Rightarrow> bool" where
  "encodable v = (v \<noteq> Unsupported)"

text \<open>
  The encoding of an \<^verbatim>\<open>interface{}\<close> value: \<^verbatim>\<open>struct{}{}\<close> is the object without members,
  a decoded value is the value it was decoded from. Marshal fails before it uses the last
  equation.
\<close>

fun enc_iface :: "iface \<Rightarrow> json" where
  "enc_iface EmptyStruct = JObject fmempty"
| "enc_iface (Decoded j) = j"
| "enc_iface Unsupported = JNull"

definition enc_iface_map :: "(string, iface) fmap option \<Rightarrow> json option" where
  "enc_iface_map m =
     (case m of
        None \<Rightarrow> None
      | Some m' \<Rightarrow> if m' = fmempty then None else Some (JObject (fmmap enc_iface m')))"

text \<open>
  The exported fields in the order of the struct, each under the name of its tag with
  the value to encode, or \<open>None\<close> when \<^verbatim>\<open>omitempty\<close> leaves it out. \<^verbatim>\<open>type\<close> is not tagged
  \<^verbatim>\<open>omitempty\<close> and is always written.
\<close>

definition fields :: "Builder \<Rightarrow> (string \<times> json option) list" where
  "fields b =
     [(''type'', Some (JString (Type b))),
      (''image'', enc_string (FromImage b)),
      (''config'', enc_bytes (Config b)),
      (''manifest'', enc_bytes (Manifest b)),
      (''container-name'', enc_string (Container b)),
      (''container-id'', enc_string (ContainerID b)),
      (''mountpoint'', enc_string (MountPoint b)),
      (''mounts'', enc_strings (Mounts b)),
      (''links'', enc_strings (Links b)),
      (''annotations'', enc_string_map (Annotations b)),
      (''created-by'', enc_string (CreatedBy b)),
      (''os'', enc_string (OS b)),
      (''arch'', enc_string (Architecture b)),
      (''maintainer'', enc_string (Maintainer b)),
      (''user'', enc_string (User b)),
      (''workingdir'', enc_string (Workdir b)),
      (''env'', enc_strings (Env b)),
      (''cmd'', enc_strings (Cmd b)),
      (''entrypoint'', enc_strings (Entrypoint b)),
      (''expose'', enc_iface_map (Expose b)),
      (''labels'', enc_string_map (Labels b)),
      (''volumes'', enc_strings (Volumes b)),
      (''arg'', enc_string_map (Arg b))]"

definition members :: "Builder \<Rightarrow> (string \<times> json) list" where
  "members b = List.map_filter (\<lambda>(name, v). map_option (Pair name) v) (fields b)"

text \<open>
  \<^verbatim>\<open>json.Marshal(b)\<close>: the unexported store handle is not encoded; the only failure is an
  Expose value that has no encoding.
\<close>

definition Marshal :: "Builder \<Rightarrow> error + bytes" where
  "Marshal b =
     (if fmpred (\<lambda>k v. encodable v) (make_if_nil (Expose b))
      then Inr (Json (JObject (fmap_of_list (members b))))
      else Inl EncodeError)"

subsection \<open>Unmarshal\<close>

text \<open>
  Decoding is directed by the type of the field. The first argument is the member of the
  object under the field's name, if there is one; the second is the value the field has.
  \<open>None\<close> is an error. The literal \<^verbatim>\<open>null\<close> leaves a string as it is and sets a slice or
  a map to nil; as an element of a slice or of a map it leaves the zero value.
\<close>

fun dec_string :: "json option \<Rightarrow> string \<Rightarrow> string option" where
  "dec_string None old = Some old"
| "dec_string (Some JNull) old = Some old"
| "dec_string (Some (JString s)) old = Some s"
| "dec_string (Some _) old = None"

fun string_elem :: "json \<Rightarrow> string option" where
  "string_elem JNull = Some []"
| "string_elem (JString s) = Some s"
| "string_elem _ = None"

fun sequence :: "'a option list \<Rightarrow> 'a list option" where
  "sequence [] = Some []"
| "sequence (x # xs) =
     (case x of None \<Rightarrow> None | Some y \<Rightarrow> map_option ((#) y) (sequence xs))"

fun dec_strings :: "json option \<Rightarrow> string list \<Rightarrow> string list option" where
  "dec_strings None old = Some old"
| "dec_strings (Some JNull) old = Some []"
| "dec_strings (Some (JArray xs)) old = sequence (map string_elem xs)"
| "dec_strings (Some _) old = None"

text \<open>
  A number is stored in a byte when \<^verbatim>\<open>strconv.ParseUint\<close> accepts its literal (digits
  only) and the value fits.
\<close>

definition is_digit :: "char \<Rightarrow> bool" where
  "is_digit c = (48 \<le> (of_char c :: nat) \<and> (of_char c :: nat) \<le> 57)"

definition decimal :: "string \<Rightarrow> nat" where
  "decimal s = foldl (\<lambda>n c. 10 * n + (of_char c - 48)) 0 s"

fun byte_elem :: "json \<Rightarrow> char option" where
  "byte_elem JNull = Some (CHR 0x00)"
| "byte_elem (JNumber lit) =
     (if lit \<noteq> [] \<and> list_all is_digit lit \<and> decimal lit < 256
      then Some (char_of (decimal lit)) else None)"
| "byte_elem _ = None"

fun dec_bytes :: "json option \<Rightarrow> string \<Rightarrow> string option" where
  "dec_bytes None old = Some old"
| "dec_bytes (Some JNull) old = Some []"
| "dec_bytes (Some (JString s)) old = b64_decode s"
| "dec_bytes (Some (JArray xs)) old = sequence (map byte_elem xs)"
| "dec_bytes (Some _) old = None"

text \<open>
  An object is decoded into the map the field holds, or into a new one when the field is
  nil: entries already there are kept unless the object has their key.
\<close>

fun dec_string_map ::
  "json option \<Rightarrow> (string, string) fmap option \<Rightarrow> (string, string) fmap option option" where
  "dec_string_map None old = Some old"
| "dec_string_map (Some JNull) old = Some None"
| "dec_string_map (Some (JObject m)) old =
     (if fmpred (\<lambda>k v. string_elem v \<noteq> None) m
      then Some (Some (make_if_nil old ++\<^sub>f fmmap (\<lambda>v. case string_elem v of Some s \<Rightarrow> s | None \<Rightarrow> []) m))
      else None)"
| "dec_string_map (Some _) old = None"

fun dec_iface_map ::
  "json option \<Rightarrow> (string, iface) fmap option \<Rightarrow> (string, iface) fmap option option" where
  "dec_iface_map None old = Some old"
| "dec_iface_map (Some JNull) old = Some None"
| "dec_iface_map (Some (JObject m)) old = Some (Some (make_if_nil old ++\<^sub>f fmmap Decoded m))"
| "dec_iface_map (Some _) old = None"

text \<open>
  The members of an object are stored into the fields named by the struct tags; other
  members are ignored, and the store handle is not touched. A member is looked up under
  the name as the tag spells it (encoding/json also takes a name that differs from the
  tag in the case of its letters only), and an object is the map of its members, so that
  a name written twice in the text is represented by one member.
\<close>

definition decode_object :: "(string, json) fmap \<Rightarrow> Builder \<Rightarrow> Builder option" where
  "decode_object m b = do {
     type' \<leftarrow> dec_string (fmlookup m ''type'') (Type b);
     image \<leftarrow> dec_string (fmlookup m ''image'') (FromImage b);
     config \<leftarrow> dec_bytes (fmlookup m ''config'') (Config b);
     manifest \<leftarrow> dec_bytes (fmlookup m ''manifest'') (Manifest b);
     container_name \<leftarrow> dec_string (fmlookup m ''container-name'') (Container b);
     container_id \<leftarrow> dec_string (fmlookup m ''container-id'') (ContainerID b);
     mountpoint \<leftarrow> dec_string (fmlookup m ''mountpoint'') (MountPoint b);
     mounts \<leftarrow> dec_strings (fmlookup m ''mounts'') (Mounts b);
     links \<leftarrow> dec_strings (fmlookup m ''links'') (Links b);
     annotations \<leftarrow> dec_string_map (fmlookup m ''annotations'') (Annotations b);
     created_by \<leftarrow> dec_string (fmlookup m ''created-by'') (CreatedBy b);
     os \<leftarrow> dec_string (fmlookup m ''os'') (OS b);
     arch \<leftarrow> dec_string (fmlookup m ''arch'') (Architecture b);
     maintainer \<leftarrow> dec_string (fmlookup m ''maintainer'') (Maintainer b);
     user \<leftarrow> dec_string (fmlookup m ''user'') (User b);
     workingdir \<leftarrow> dec_string (fmlookup m ''workingdir'') (Workdir b);
     env \<leftarrow> dec_strings (fmlookup m ''env'') (Env b);
     cmd \<leftarrow> dec_strings (fmlookup m ''cmd'') (Cmd b);
     entrypoint \<leftarrow> dec_strings (fmlookup m ''entrypoint'') (Entrypoint b);
     expose \<leftarrow> dec_iface_map (fmlookup m ''expose'') (Expose b);
     labels \<leftarrow> dec_string_map (fmlookup m ''labels'') (Labels b);
     volumes \<leftarrow> dec_strings (fmlookup m ''volumes'') (Volumes b);
     arg \<leftarrow> dec_string_map (fmlookup m ''arg'') (Arg b);
     Some (b\<lparr> Type := type', FromImage := image, Config := config, Manifest := manifest,
              Container := container_name, ContainerID := container_id,
              MountPoint := mountpoint, Mounts := mounts, Links := links,
              Annotations := annotations, CreatedBy := created_by, OS := os,
              Architecture := arch, Maintainer := maintainer, User := user,
              Workdir := workingdir, Env := env, Cmd := cmd, Entrypoint := entrypoint,
              Expose := expose, Labels := labels, Volumes := volumes, Arg := arg \<rparr>)
   }"

text \<open>
  \<^verbatim>\<open>json.Unmarshal(data, &b)\<close> for \<^verbatim>\<open>b\<close> of type \<^verbatim>\<open>*Builder\<close>: the result is the error, or
  the pointer \<^verbatim>\<open>b\<close> after the call. The literal \<^verbatim>\<open>null\<close> sets the pointer to nil (\<open>None\<close>);
  an object is decoded into the Builder the pointer refers to; any other value is a
  type error.
\<close>

fun Unmarshal :: "bytes \<Rightarrow> Builder \<Rightarrow> error + Builder option" where
  "Unmarshal Malformed b = Inl DecodeError"
| "Unmarshal (Json JNull) b = Inr None"
| "Unmarshal (Json (JObject m)) b =
     (case decode_object m b of None \<Rightarrow> Inl DecodeError | Some b' \<Rightarrow> Inr (Some b'))"
| "Unmarshal (Json _) b = Inl DecodeError"

section \<open>Opening and saving a Builder (buildah.go)\<close>

text \<open>
  \<^verbatim>\<open>filepath.Join\<close> of a directory and a file name (its normalisation of the result by
  \<^verbatim>\<open>Clean\<close> is left out), and \<^verbatim>\<open>ioutil.ReadFile\<close> on the file system.
\<close>

definition Join :: "string \<Rightarrow> string \<Rightarrow> string" where
  "Join dir name = (if dir = [] then name else dir @ ''/'' @ name)"

definition ReadFile :: "filesystem \<Rightarrow> string \<Rightarrow> error + bytes" where
  "ReadFile fs filename =
     (case fs filename of None \<Rightarrow> Inl (PathError filename) | Some data \<Rightarrow> Inr data)"

definition OpenBuilder :: "filesystem \<Rightarrow> Store \<Rightarrow> string \<Rightarrow> Builder result" where
  "OpenBuilder fs store' container =
     (case GetContainerDirectory store' container of
        Inl err \<Rightarrow> Error err
      | Inr cdir \<Rightarrow>
          (case ReadFile fs (Join cdir stateFile) of
             Inl err \<Rightarrow> Error err
           | Inr buildstate \<Rightarrow>
               (case Unmarshal buildstate zero_Builder of
                  Inl err \<Rightarrow> Error err
                | Inr None \<Rightarrow> Panic
                | Inr (Some b) \<Rightarrow>
                    if Type b \<noteq> containerType then Error NotBuildahContainer
                    else Ok (b\<lparr>store := Some store'\<rparr>))))"

fun contains :: "string list \<Rightarrow> string \<Rightarrow> bool" where
  "contains [] path = False"
| "contains (m # ms) path = (if m = path then True else contains ms path)"

definition builderMatchesPath :: "Builder \<Rightarrow> string \<Rightarrow> bool" where
  "builderMatchesPath b path =
     (if MountPoint b = path then True
      else if contains (Mounts b) path then True
      else if contains (Links b) path then True
      else False)"

text \<open>
  The loop of OpenBuilderByPath over the containers the Store listed. In the condition
  \<^verbatim>\<open>err == nil && b.Type == containerType && builderMatchesPath(b, abs)\<close> the second
  conjunct reads through the pointer \<^verbatim>\<open>b\<close>, which panics when Unmarshal has set it to nil.
\<close>

fun scan :: "Store \<Rightarrow> string \<Rightarrow> storage_Container list \<Rightarrow> Builder result" where
  "scan store' abs' [] = Error ErrContainerUnknown"
| "scan store' abs' (container # containers) =
     (case GetMetadata store' (ID container) of
        Inl err \<Rightarrow> Error err
      | Inr buildstate \<Rightarrow>
          (case Unmarshal buildstate zero_Builder of
             Inl err \<Rightarrow> scan store' abs' containers
           | Inr None \<Rightarrow> Panic
           | Inr (Some b) \<Rightarrow>
               if Type b = containerType \<and> builderMatchesPath b abs'
               then Ok (b\<lparr>store := Some store'\<rparr>)
               else scan store' abs' containers))"

text \<open>\<open>Abs\<close> is \<^verbatim>\<open>filepath.Abs\<close>, which depends on the working directory of the process.\<close>

definition OpenBuilderByPath ::
  "(string \<Rightarrow> error + string) \<Rightarrow> Store \<Rightarrow> string \<Rightarrow> Builder result" where
  "OpenBuilderByPath Abs store' path =
     (case Containers store' of
        Inl err \<Rightarrow> Error err
      | Inr containers \<Rightarrow>
          (case Abs path of
             Inl err \<Rightarrow> Error err
           | Inr abs' \<Rightarrow> scan store' abs' containers))"

text \<open>
  Modelled from the spec: \<^verbatim>\<open>ioutils.AtomicWriteFile\<close> of github.com/containers/storage is
  not among the sources. The spec has it write the data to a temporary file and rename
  that file into place on success, and remove the temporary file on any failure. A
  \<open>write_fault\<close> says where the write goes wrong, with what the temporary file held
  at that point: the temporary file cannot be created, the write or the rename fails, or
  the process is killed before or after the rename. \<open>tmp\<close> is the name of the temporary
  file.
\<close>

datatype write_fault =
    NoFault
  | CreateFails error
  | WriteFails bytes error
  | RenameFails error
  | KilledBeforeRename bytes
  | KilledAfterRename

fun AtomicWriteFile ::
  "write_fault \<Rightarrow> string \<Rightarrow> filesystem \<Rightarrow> string \<Rightarrow> bytes \<Rightarrow> unit result \<times> filesystem" where
  "AtomicWriteFile NoFault tmp fs filename data = (Ok (), (fs(tmp := None))(filename \<mapsto> data))"
| "AtomicWriteFile (CreateFails err) tmp fs filename data = (Error err, fs)"
| "AtomicWriteFile (WriteFails partial err) tmp fs filename data = (Error err, fs(tmp := None))"
| "AtomicWriteFile (RenameFails err) tmp fs filename data = (Error err, fs(tmp := None))"
| "AtomicWriteFile (KilledBeforeRename partial) tmp fs filename data =
     (Killed, fs(tmp \<mapsto> partial))"
| "AtomicWriteFile KilledAfterRename tmp fs filename data =
     (Killed, (fs(tmp := None))(filename \<mapsto> data))"

text \<open>
  Save returns the error (\<open>Ok ()\<close> for nil) and the file system it leaves. A Builder
  without a store handle panics at the method call on the nil interface.
\<close>

definition Save :: "write_fault \<Rightarrow> string \<Rightarrow> filesystem \<Rightarrow> Builder \<Rightarrow> unit result \<times> filesystem" where
  "Save fault tmp fs b =
     (case Marshal b of
        Inl err \<Rightarrow> (Error err, fs)
      | Inr buildstate \<Rightarrow>
          (case store b of
             None \<Rightarrow> (Panic, fs)
           | Some store' \<Rightarrow>
               (case GetContainerDirectory store' (ContainerID b) of
                  Inl err \<Rightarrow> (Error err, fs)
                | Inr cdir \<Rightarrow> AtomicWriteFile fault tmp fs (Join cdir stateFile) buildstate)))"

section \<open>Reference definitions and example inputs\<close>

definition example_Builder :: Builder where
  "example_Builder = zero_Builder\<lparr> Type := containerType, ContainerID := ''c1'',
     MountPoint := ''/mnt/c1'', Env := [''A=0''], Cmd := [''/bin/sh''],
     Entrypoint := [''/entry''], Volumes := [''/v0''],
     Labels := Some (fmap_of_list [(''b'', ''x''), (''c'', ''y'')]),
     Annotations := Some (fmap_of_list [(''b'', ''x''), (''c'', ''y'')]) \<rparr>"

definition no_flags :: Context where
  "no_flags = \<lparr> IsSet = (\<lambda>flag. False), String = (\<lambda>flag. []), StringSlice = (\<lambda>flag. []) \<rparr>"

definition example_flags :: Context where
  "example_flags = \<lparr>
     IsSet = (\<lambda>flag. flag \<in> set [''env'', ''volume'', ''label'', ''annotation'', ''entrypoint'', ''cmd'', ''os'']),
     String = (\<lambda>flag. if flag \<in> set [''entrypoint'', ''cmd''] then ''/bin/app --serve''
                       else if flag = ''os'' then ''linux'' else []),
     StringSlice = (\<lambda>flag. if flag = ''env'' then [''FOO=1'', ''FOO=1'']
                            else if flag = ''volume'' then [''/data'']
                            else if flag \<in> set [''label'', ''annotation''] then [''a=1'', ''b'']
                            else []) \<rparr>"

definition example_Parse :: "string \<Rightarrow> error + string list" where
  "example_Parse s =
     (if s = ''/bin/app --serve'' then Inr [''/bin/app'', ''--serve'']
      else Inl (ParseError ''invalid command line string''))"

text \<open>
  The update of a label or annotation map by one entry, in the words of the spec: split on
  the first \<open>=\<close>; with a value portion set the key, without \<open>=\<close> remove the key.
\<close>

definition spec_set_or_delete :: "string \<Rightarrow> (string, string) fmap \<Rightarrow> (string, string) fmap" where
  "spec_set_or_delete entry m =
     (if CHR ''='' \<in> set entry
      then fmupd (takeWhile (\<lambda>x. x \<noteq> CHR ''='') entry)
                 (tl (dropWhile (\<lambda>x. x \<noteq> CHR ''='') entry)) m
      else fmdrop entry m)"


definition example_metadata :: bytes where
  "example_metadata = Json (JObject (fmap_of_list
     [(''type'', JString ''buildah 0.0.0''), (''container-id'', JString ''c1''),
      (''mountpoint'', JString ''/mnt/c1'')]))"

definition example_record :: Builder where
  "example_record = zero_Builder\<lparr> Type := ''buildah 0.0.0'', ContainerID := ''c1'',
     MountPoint := ''/mnt/c1'' \<rparr>"

definition null_store :: Store where
  "null_store = \<lparr>
     Containers = Inr [\<lparr>ID = ''c0''\<rparr>, \<lparr>ID = ''c1''\<rparr>],
     GetMetadata = (\<lambda>id. if id = ''c0'' then Inr (Json JNull)
                          else if id = ''c1'' then Inr example_metadata
                          else Inl (StoreError ''not a container'')),
     GetContainerDirectory = (\<lambda>id. if id = ''c0'' \<or> id = ''c1'' then Inr (''/run/'' @ id)
                                    else Inl ErrContainerUnknown) \<rparr>"

definition null_fs :: filesystem where
  "null_fs = [''/run/c0/buildah.json'' \<mapsto> Json JNull,
              ''/run/c1/buildah.json'' \<mapsto> example_metadata]"

text \<open>
  The vocabulary of the path lookup: the build-container record a listed container's
  metadata decodes to (if it does), whether that record matches a path in the words of
  the spec, and whether the metadata can be read and is not the literal \<^verbatim>\<open>null\<close>.
\<close>

definition record_of :: "Store \<Rightarrow> storage_Container \<Rightarrow> Builder option" where
  "record_of store' container =
     (case GetMetadata store' (ID container) of
        Inl err \<Rightarrow> None
      | Inr buildstate \<Rightarrow>
          (case Unmarshal buildstate zero_Builder of
             Inr (Some b) \<Rightarrow> if Type b = containerType then Some b else None
           | _ \<Rightarrow> None))"

definition matching :: "Store \<Rightarrow> string \<Rightarrow> storage_Container \<Rightarrow> bool" where
  "matching store' P container =
     (case record_of store' container of
        None \<Rightarrow> False
      | Some b \<Rightarrow> MountPoint b = P \<or> P \<in> set (Mounts b) \<or> P \<in> set (Links b))"

definition readable :: "Store \<Rightarrow> storage_Container \<Rightarrow> bool" where
  "readable store' container =
     (case GetMetadata store' (ID container) of
        Inl err \<Rightarrow> False
      | Inr buildstate \<Rightarrow> Unmarshal buildstate zero_Builder \<noteq> Inr None)"

definition failing_store :: Store where
  "failing_store = null_store\<lparr>
     GetMetadata := (\<lambda>id. if id = ''c0'' then Inl (StoreError ''cannot load container'')
                           else GetMetadata null_store id) \<rparr>"

definition foreign_metadata :: bytes where
  "foreign_metadata = Json (JObject (fmap_of_list
     [(''type'', JString ''other tool''), (''mountpoint'', JString ''/mnt/c1'')]))"

definition linked_metadata :: bytes where
  "linked_metadata = Json (JObject (fmap_of_list
     [(''type'', JString ''buildah 0.0.0''), (''container-id'', JString ''c3''),
      (''mountpoint'', JString ''/mnt/c3''), (''links'', JArray [JString ''/mnt/c1''])]))"

definition mixed_store :: Store where
  "mixed_store = \<lparr>
     Containers = Inr [\<lparr>ID = ''c0''\<rparr>, \<lparr>ID = ''c2''\<rparr>, \<lparr>ID = ''c1''\<rparr>, \<lparr>ID = ''c3''\<rparr>],
     GetMetadata = (\<lambda>id. if id = ''c0'' then Inr Malformed
                          else if id = ''c2'' then Inr foreign_metadata
                          else if id = ''c1'' then Inr example_metadata
                          else if id = ''c3'' then Inr linked_metadata
                          else Inl (StoreError ''not a container'')),
     GetContainerDirectory = (\<lambda>id. Inr (''/run/'' @ id)) \<rparr>"

definition unencodable_Builder :: Builder where
  "unencodable_Builder = example_record\<lparr> store := Some null_store,
     Expose := Some (fmap_of_list [(''80/tcp'', Unsupported)]) \<rparr>"

definition unknown_Builder :: Builder where
  "unknown_Builder = example_record\<lparr> store := Some null_store, ContainerID := ''c9'' \<rparr>"

definition stored_Builder :: Builder where
  "stored_Builder = example_record\<lparr> store := Some null_store, OS := ''linux'' \<rparr>"

definition example_tmp :: string where
  "example_tmp = ''/run/c1/.tmp-buildah.json042''"

definition no_space :: error where
  "no_space = PathError ''no space left on device''"









text \<open>
  A Store that cannot list its containers, and a \<^verbatim>\<open>filepath.Abs\<close> in a process whose
  working directory cannot be determined: a relative path has no absolute form.
\<close>

definition unlisted_store :: Store where
  "unlisted_store = mixed_store\<lparr> Containers := Inl (StoreError ''cannot load containers'') \<rparr>"

definition no_working_directory :: "string \<Rightarrow> error + string" where
  "no_working_directory path =
     (if take 1 path = ''/'' then Inr path else Inl (PathError ''getwd''))"

section \<open>Properties of the configuration update\<close>

subsection \<open>The loops of updateConfig in closed form\<close>

lemma fold_append_Env:
  "fold (\<lambda>envSpec b. b\<lparr>Env := Env b @ [envSpec]\<rparr>) xs b = b\<lparr>Env := Env b @ xs\<rparr>"
  by (induction xs arbitrary: b) simp_all

lemma fold_append_Volumes:
  "fold (\<lambda>volSpec b. b\<lparr>Volumes := Volumes b @ [volSpec]\<rparr>) xs b = b\<lparr>Volumes := Volumes b @ xs\<rparr>"
  by (induction xs arbitrary: b) simp_all

lemma update_env_eq:
  "update_env c b =
     (if IsSet c ''env'' then b\<lparr>Env := Env b @ StringSlice c ''env''\<rparr> else b)"
  by (simp add: update_env_def fold_append_Env)

lemma update_volume_eq:
  "update_volume c b =
     (if IsSet c ''volume'' then b\<lparr>Volumes := Volumes b @ StringSlice c ''volume''\<rparr> else b)"
  by (simp add: update_volume_def fold_append_Volumes)

subsection \<open>What each update leaves alone\<close>

lemma update_author_frame [simp]:
  "store (update_author c b) = store b"
  "Type (update_author c b) = Type b"
  "FromImage (update_author c b) = FromImage b"
  "Config (update_author c b) = Config b"
  "Manifest (update_author c b) = Manifest b"
  "Container (update_author c b) = Container b"
  "ContainerID (update_author c b) = ContainerID b"
  "MountPoint (update_author c b) = MountPoint b"
  "Mounts (update_author c b) = Mounts b"
  "Links (update_author c b) = Links b"
  "Annotations (update_author c b) = Annotations b"
  "CreatedBy (update_author c b) = CreatedBy b"
  "OS (update_author c b) = OS b"
  "Architecture (update_author c b) = Architecture b"
  "User (update_author c b) = User b"
  "Workdir (update_author c b) = Workdir b"
  "Env (update_author c b) = Env b"
  "Cmd (update_author c b) = Cmd b"
  "Entrypoint (update_author c b) = Entrypoint b"
  "Expose (update_author c b) = Expose b"
  "Labels (update_author c b) = Labels b"
  "Volumes (update_author c b) = Volumes b"
  "Arg (update_author c b) = Arg b"
  by (simp_all add: update_author_def split: sum.split)

lemma update_created_by_frame [simp]:
  "store (update_created_by c b) = store b"
  "Type (update_created_by c b) = Type b"
  "FromImage (update_created_by c b) = FromImage b"
  "Config (update_created_by c b) = Config b"
  "Manifest (update_created_by c b) = Manifest b"
  "Container (update_created_by c b) = Container b"
  "ContainerID (update_created_by c b) = ContainerID b"
  "MountPoint (update_created_by c b) = MountPoint b"
  "Mounts (update_created_by c b) = Mounts b"
  "Links (update_created_by c b) = Links b"
  "Annotations (update_created_by c b) = Annotations b"
  "OS (update_created_by c b) = OS b"
  "Architecture (update_created_by c b) = Architecture b"
  "Maintainer (update_created_by c b) = Maintainer b"
  "User (update_created_by c b) = User b"
  "Workdir (update_created_by c b) = Workdir b"
  "Env (update_created_by c b) = Env b"
  "Cmd (update_created_by c b) = Cmd b"
  "Entrypoint (update_created_by c b) = Entrypoint b"
  "Expose (update_created_by c b) = Expose b"
  "Labels (update_created_by c b) = Labels b"
  "Volumes (update_created_by c b) = Volumes b"
  "Arg (update_created_by c b) = Arg b"
  by (simp_all add: update_created_by_def split: sum.split)

lemma update_arch_frame [simp]:
  "store (update_arch c b) = store b"
  "Type (update_arch c b) = Type b"
  "FromImage (update_arch c b) = FromImage b"
  "Config (update_arch c b) = Config b"
  "Manifest (update_arch c b) = Manifest b"
  "Container (update_arch c b) = Container b"
  "ContainerID (update_arch c b) = ContainerID b"
  "MountPoint (update_arch c b) = MountPoint b"
  "Mounts (update_arch c b) = Mounts b"
  "Links (update_arch c b) = Links b"
  "Annotations (update_arch c b) = Annotations b"
  "CreatedBy (update_arch c b) = CreatedBy b"
  "OS (update_arch c b) = OS b"
  "Maintainer (update_arch c b) = Maintainer b"
  "User (update_arch c b) = User b"
  "Workdir (update_arch c b) = Workdir b"
  "Env (update_arch c b) = Env b"
  "Cmd (update_arch c b) = Cmd b"
  "Entrypoint (update_arch c b) = Entrypoint b"
  "Expose (update_arch c b) = Expose b"
  "Labels (update_arch c b) = Labels b"
  "Volumes (update_arch c b) = Volumes b"
  "Arg (update_arch c b) = Arg b"
  by (simp_all add: update_arch_def split: sum.split)

lemma update_os_frame [simp]:
  "store (update_os c b) = store b"
  "Type (update_os c b) = Type b"
  "FromImage (update_os c b) = FromImage b"
  "Config (update_os c b) = Config b"
  "Manifest (update_os c b) = Manifest b"
  "Container (update_os c b) = Container b"
  "ContainerID (update_os c b) = ContainerID b"
  "MountPoint (update_os c b) = MountPoint b"
  "Mounts (update_os c b) = Mounts b"
  "Links (update_os c b) = Links b"
  "Annotations (update_os c b) = Annotations b"
  "CreatedBy (update_os c b) = CreatedBy b"
  "Architecture (update_os c b) = Architecture b"
  "Maintainer (update_os c b) = Maintainer b"
  "User (update_os c b) = User b"
  "Workdir (update_os c b) = Workdir b"
  "Env (update_os c b) = Env b"
  "Cmd (update_os c b) = Cmd b"
  "Entrypoint (update_os c b) = Entrypoint b"
  "Expose (update_os c b) = Expose b"
  "Labels (update_os c b) = Labels b"
  "Volumes (update_os c b) = Volumes b"
  "Arg (update_os c b) = Arg b"
  by (simp_all add: update_os_def split: sum.split)

lemma update_user_frame [simp]:
  "store (update_user c b) = store b"
  "Type (update_user c b) = Type b"
  "FromImage (update_user c b) = FromImage b"
  "Config (update_user c b) = Config b"
  "Manifest (update_user c b) = Manifest b"
  "Container (update_user c b) = Container b"
  "ContainerID (update_user c b) = ContainerID b"
  "MountPoint (update_user c b) = MountPoint b"
  "Mounts (update_user c b) = Mounts b"
  "Links (update_user c b) = Links b"
  "Annotations (update_user c b) = Annotations b"
  "CreatedBy (update_user c b) = CreatedBy b"
  "OS (update_user c b) = OS b"
  "Architecture (update_user c b) = Architecture b"
  "Maintainer (update_user c b) = Maintainer b"
  "Workdir (update_user c b) = Workdir b"
  "Env (update_user c b) = Env b"
  "Cmd (update_user c b) = Cmd b"
  "Entrypoint (update_user c b) = Entrypoint b"
  "Expose (update_user c b) = Expose b"
  "Labels (update_user c b) = Labels b"
  "Volumes (update_user c b) = Volumes b"
  "Arg (update_user c b) = Arg b"
  by (simp_all add: update_user_def split: sum.split)

lemma update_port_frame [simp]:
  "store (update_port c b) = store b"
  "Type (update_port c b) = Type b"
  "FromImage (update_port c b) = FromImage b"
  "Config (update_port c b) = Config b"
  "Manifest (update_port c b) = Manifest b"
  "Container (update_port c b) = Container b"
  "ContainerID (update_port c b) = ContainerID b"
  "MountPoint (update_port c b) = MountPoint b"
  "Mounts (update_port c b) = Mounts b"
  "Links (update_port c b) = Links b"
  "Annotations (update_port c b) = Annotations b"
  "CreatedBy (update_port c b) = CreatedBy b"
  "OS (update_port c b) = OS b"
  "Architecture (update_port c b) = Architecture b"
  "Maintainer (update_port c b) = Maintainer b"
  "User (update_port c b) = User b"
  "Workdir (update_port c b) = Workdir b"
  "Env (update_port c b) = Env b"
  "Cmd (update_port c b) = Cmd b"
  "Entrypoint (update_port c b) = Entrypoint b"
  "Labels (update_port c b) = Labels b"
  "Volumes (update_port c b) = Volumes b"
  "Arg (update_port c b) = Arg b"
  by (simp_all add: update_port_def split: sum.split)

lemma update_env_frame [simp]:
  "store (update_env c b) = store b"
  "Type (update_env c b) = Type b"
  "FromImage (update_env c b) = FromImage b"
  "Config (update_env c b) = Config b"
  "Manifest (update_env c b) = Manifest b"
  "Container (update_env c b) = Container b"
  "ContainerID (update_env c b) = ContainerID b"
  "MountPoint (update_env c b) = MountPoint b"
  "Mounts (update_env c b) = Mounts b"
  "Links (update_env c b) = Links b"
  "Annotations (update_env c b) = Annotations b"
  "CreatedBy (update_env c b) = CreatedBy b"
  "OS (update_env c b) = OS b"
  "Architecture (update_env c b) = Architecture b"
  "Maintainer (update_env c b) = Maintainer b"
  "User (update_env c b) = User b"
  "Workdir (update_env c b) = Workdir b"
  "Cmd (update_env c b) = Cmd b"
  "Entrypoint (update_env c b) = Entrypoint b"
  "Expose (update_env c b) = Expose b"
  "Labels (update_env c b) = Labels b"
  "Volumes (update_env c b) = Volumes b"
  "Arg (update_env c b) = Arg b"
  by (simp_all add: update_env_eq split: sum.split)

lemma update_entrypoint_frame [simp]:
  "store (fst (update_entrypoint Parse c b)) = store b"
  "Type (fst (update_entrypoint Parse c b)) = Type b"
  "FromImage (fst (update_entrypoint Parse c b)) = FromImage b"
  "Config (fst (update_entrypoint Parse c b)) = Config b"
  "Manifest (fst (update_entrypoint Parse c b)) = Manifest b"
  "Container (fst (update_entrypoint Parse c b)) = Container b"
  "ContainerID (fst (update_entrypoint Parse c b)) = ContainerID b"
  "MountPoint (fst (update_entrypoint Parse c b)) = MountPoint b"
  "Mounts (fst (update_entrypoint Parse c b)) = Mounts b"
  "Links (fst (update_entrypoint Parse c b)) = Links b"
  "Annotations (fst (update_entrypoint Parse c b)) = Annotations b"
  "CreatedBy (fst (update_entrypoint Parse c b)) = CreatedBy b"
  "OS (fst (update_entrypoint Parse c b)) = OS b"
  "Architecture (fst (update_entrypoint Parse c b)) = Architecture b"
  "Maintainer (fst (update_entrypoint Parse c b)) = Maintainer b"
  "User (fst (update_entrypoint Parse c b)) = User b"
  "Workdir (fst (update_entrypoint Parse c b)) = Workdir b"
  "Env (fst (update_entrypoint Parse c b)) = Env b"
  "Cmd (fst (update_entrypoint Parse c b)) = Cmd b"
  "Expose (fst (update_entrypoint Parse c b)) = Expose b"
  "Labels (fst (update_entrypoint Parse c b)) = Labels b"
  "Volumes (fst (update_entrypoint Parse c b)) = Volumes b"
  "Arg (fst (update_entrypoint Parse c b)) = Arg b"
  by (simp_all add: update_entrypoint_def split: sum.split)

lemma update_cmd_frame [simp]:
  "store (fst (update_cmd Parse c b)) = store b"
  "Type (fst (update_cmd Parse c b)) = Type b"
  "FromImage (fst (update_cmd Parse c b)) = FromImage b"
  "Config (fst (update_cmd Parse c b)) = Config b"
  "Manifest (fst (update_cmd Parse c b)) = Manifest b"
  "Container (fst (update_cmd Parse c b)) = Container b"
  "ContainerID (fst (update_cmd Parse c b)) = ContainerID b"
  "MountPoint (fst (update_cmd Parse c b)) = MountPoint b"
  "Mounts (fst (update_cmd Parse c b)) = Mounts b"
  "Links (fst (update_cmd Parse c b)) = Links b"
  "Annotations (fst (update_cmd Parse c b)) = Annotations b"
  "CreatedBy (fst (update_cmd Parse c b)) = CreatedBy b"
  "OS (fst (update_cmd Parse c b)) = OS b"
  "Architecture (fst (update_cmd Parse c b)) = Architecture b"
  "Maintainer (fst (update_cmd Parse c b)) = Maintainer b"
  "User (fst (update_cmd Parse c b)) = User b"
  "Workdir (fst (update_cmd Parse c b)) = Workdir b"
  "Env (fst (update_cmd Parse c b)) = Env b"
  "Entrypoint (fst (update_cmd Parse c b)) = Entrypoint b"
  "Expose (fst (update_cmd Parse c b)) = Expose b"
  "Labels (fst (update_cmd Parse c b)) = Labels b"
  "Volumes (fst (update_cmd Parse c b)) = Volumes b"
  "Arg (fst (update_cmd Parse c b)) = Arg b"
  by (simp_all add: update_cmd_def split: sum.split)

lemma update_volume_frame [simp]:
  "store (update_volume c b) = store b"
  "Type (update_volume c b) = Type b"
  "FromImage (update_volume c b) = FromImage b"
  "Config (update_volume c b) = Config b"
  "Manifest (update_volume c b) = Manifest b"
  "Container (update_volume c b) = Container b"
  "ContainerID (update_volume c b) = ContainerID b"
  "MountPoint (update_volume c b) = MountPoint b"
  "Mounts (update_volume c b) = Mounts b"
  "Links (update_volume c b) = Links b"
  "Annotations (update_volume c b) = Annotations b"
  "CreatedBy (update_volume c b) = CreatedBy b"
  "OS (update_volume c b) = OS b"
  "Architecture (update_volume c b) = Architecture b"
  "Maintainer (update_volume c b) = Maintainer b"
  "User (update_volume c b) = User b"
  "Workdir (update_volume c b) = Workdir b"
  "Env (update_volume c b) = Env b"
  "Cmd (update_volume c b) = Cmd b"
  "Entrypoint (update_volume c b) = Entrypoint b"
  "Expose (update_volume c b) = Expose b"
  "Labels (update_volume c b) = Labels b"
  "Arg (update_volume c b) = Arg b"
  by (simp_all add: update_volume_eq split: sum.split)

lemma update_label_frame [simp]:
  "store (update_label c b) = store b"
  "Type (update_label c b) = Type b"
  "FromImage (update_label c b) = FromImage b"
  "Config (update_label c b) = Config b"
  "Manifest (update_label c b) = Manifest b"
  "Container (update_label c b) = Container b"
  "ContainerID (update_label c b) = ContainerID b"
  "MountPoint (update_label c b) = MountPoint b"
  "Mounts (update_label c b) = Mounts b"
  "Links (update_label c b) = Links b"
  "Annotations (update_label c b) = Annotations b"
  "CreatedBy (update_label c b) = CreatedBy b"
  "OS (update_label c b) = OS b"
  "Architecture (update_label c b) = Architecture b"
  "Maintainer (update_label c b) = Maintainer b"
  "User (update_label c b) = User b"
  "Workdir (update_label c b) = Workdir b"
  "Env (update_label c b) = Env b"
  "Cmd (update_label c b) = Cmd b"
  "Entrypoint (update_label c b) = Entrypoint b"
  "Expose (update_label c b) = Expose b"
  "Volumes (update_label c b) = Volumes b"
  "Arg (update_label c b) = Arg b"
  by (simp_all add: update_label_def split: sum.split)

lemma update_workingdir_frame [simp]:
  "store (update_workingdir c b) = store b"
  "Type (update_workingdir c b) = Type b"
  "FromImage (update_workingdir c b) = FromImage b"
  "Config (update_workingdir c b) = Config b"
  "Manifest (update_workingdir c b) = Manifest b"
  "Container (update_workingdir c b) = Container b"
  "ContainerID (update_workingdir c b) = ContainerID b"
  "MountPoint (update_workingdir c b) = MountPoint b"
  "Mounts (update_workingdir c b) = Mounts b"
  "Links (update_workingdir c b) = Links b"
  "Annotations (update_workingdir c b) = Annotations b"
  "CreatedBy (update_workingdir c b) = CreatedBy b"
  "OS (update_workingdir c b) = OS b"
  "Architecture (update_workingdir c b) = Architecture b"
  "Maintainer (update_workingdir c b) = Maintainer b"
  "User (update_workingdir c b) = User b"
  "Env (update_workingdir c b) = Env b"
  "Cmd (update_workingdir c b) = Cmd b"
  "Entrypoint (update_workingdir c b) = Entrypoint b"
  "Expose (update_workingdir c b) = Expose b"
  "Labels (update_workingdir c b) = Labels b"
  "Volumes (update_workingdir c b) = Volumes b"
  "Arg (update_workingdir c b) = Arg b"
  by (simp_all add: update_workingdir_def split: sum.split)

lemma update_annotation_frame [simp]:
  "store (update_annotation c b) = store b"
  "Type (update_annotation c b) = Type b"
  "FromImage (update_annotation c b) = FromImage b"
  "Config (update_annotation c b) = Config b"
  "Manifest (update_annotation c b) = Manifest b"
  "Container (update_annotation c b) = Container b"
  "ContainerID (update_annotation c b) = ContainerID b"
  "MountPoint (update_annotation c b) = MountPoint b"
  "Mounts (update_annotation c b) = Mounts b"
  "Links (update_annotation c b) = Links b"
  "CreatedBy (update_annotation c b) = CreatedBy b"
  "OS (update_annotation c b) = OS b"
  "Architecture (update_annotation c b) = Architecture b"
  "Maintainer (update_annotation c b) = Maintainer b"
  "User (update_annotation c b) = User b"
  "Workdir (update_annotation c b) = Workdir b"
  "Env (update_annotation c b) = Env b"
  "Cmd (update_annotation c b) = Cmd b"
  "Entrypoint (update_annotation c b) = Entrypoint b"
  "Expose (update_annotation c b) = Expose b"
  "Labels (update_annotation c b) = Labels b"
  "Volumes (update_annotation c b) = Volumes b"
  "Arg (update_annotation c b) = Arg b"
  by (simp_all add: update_annotation_def split: sum.split)

lemma updateConfig_fst:
  "fst (updateConfig Parse b c) =
     update_annotation c (update_workingdir c (update_label c (update_volume c
       (fst (update_cmd Parse c (fst (update_entrypoint Parse c
          (update_env c (update_port c (update_user c (update_os c (update_arch c
             (update_created_by c (update_author c b))))))))))))))"
  by (simp add: updateConfig_def Let_def split_beta)


lemma Env_updateConfig:
  "Env (fst (updateConfig Parse b c)) =
     (if IsSet c ''env'' then Env b @ StringSlice c ''env'' else Env b)"
  by (simp add: updateConfig_fst) (simp add: update_env_eq)

lemma Volumes_updateConfig:
  "Volumes (fst (updateConfig Parse b c)) =
     (if IsSet c ''volume'' then Volumes b @ StringSlice c ''volume'' else Volumes b)"
  by (simp add: updateConfig_fst) (simp add: update_volume_eq)

text \<open>
  Claim C7. When \<^verbatim>\<open>--env\<close> (respectively \<^verbatim>\<open>--volume\<close>) is given, the updated Env
  (Volumes) is the existing sequence followed by the supplied values, in order and with
  duplicates kept; running the same update a second time appends the values once more.
\<close>

theorem env_volume_append:
  "(IsSet c ''env'' \<longrightarrow>
      Env (fst (updateConfig Parse b c)) = Env b @ StringSlice c ''env'')
   \<and> (IsSet c ''volume'' \<longrightarrow>
      Volumes (fst (updateConfig Parse b c)) = Volumes b @ StringSlice c ''volume'')
   \<and> (IsSet c ''env'' \<longrightarrow>
      Env (fst (updateConfig Parse (fst (updateConfig Parse b c)) c))
        = (Env b @ StringSlice c ''env'') @ StringSlice c ''env'')"
  by (simp add: Env_updateConfig Volumes_updateConfig)

theorem env_volume_append_witness:
  "IsSet example_flags ''env'' \<and> IsSet example_flags ''volume''
   \<and> Env (fst (updateConfig example_Parse example_Builder example_flags))
       = [''A=0'', ''FOO=1'', ''FOO=1'']
   \<and> Volumes (fst (updateConfig example_Parse example_Builder example_flags))
       = [''/v0'', ''/data'']
   \<and> Env (fst (updateConfig example_Parse
              (fst (updateConfig example_Parse example_Builder example_flags)) example_flags))
       = [''A=0'', ''FOO=1'', ''FOO=1'', ''FOO=1'', ''FOO=1'']"
  using env_volume_append [of example_flags example_Parse example_Builder]
  by (simp add: example_flags_def example_Builder_def zero_Builder_def)

lemma Entrypoint_updateConfig:
  "Entrypoint (fst (updateConfig Parse b c)) =
     (if IsSet c ''entrypoint''
      then (case Parse (String c ''entrypoint'') of Inl err \<Rightarrow> Entrypoint b | Inr spec \<Rightarrow> spec)
      else Entrypoint b)"
  by (simp add: updateConfig_fst) (simp add: update_entrypoint_def split: sum.split)

lemma Cmd_updateConfig:
  "Cmd (fst (updateConfig Parse b c)) =
     (if IsSet c ''cmd''
      then (case Parse (String c ''cmd'') of Inl err \<Rightarrow> Cmd b | Inr spec \<Rightarrow> spec)
      else Cmd b)"
  by (simp add: updateConfig_fst) (simp add: update_cmd_def split: sum.split)

text \<open>
  Claim C10. When the \<^verbatim>\<open>--entrypoint\<close> (respectively \<^verbatim>\<open>--cmd\<close>) string tokenizes, the
  updated Entrypoint (Cmd) is exactly the parsed argument sequence: the existing value
  is replaced, not extended.
\<close>

theorem entrypoint_cmd_replace:
  "(IsSet c ''entrypoint'' \<and> Parse (String c ''entrypoint'') = Inr entrypointSpec \<longrightarrow>
      Entrypoint (fst (updateConfig Parse b c)) = entrypointSpec)
   \<and> (IsSet c ''cmd'' \<and> Parse (String c ''cmd'') = Inr cmdSpec \<longrightarrow>
      Cmd (fst (updateConfig Parse b c)) = cmdSpec)"
  by (simp add: Entrypoint_updateConfig Cmd_updateConfig)

theorem entrypoint_cmd_replace_witness:
  "IsSet example_flags ''entrypoint'' \<and> IsSet example_flags ''cmd''
   \<and> example_Parse (String example_flags ''entrypoint'') = Inr [''/bin/app'', ''--serve'']
   \<and> example_Parse (String example_flags ''cmd'') = Inr [''/bin/app'', ''--serve'']
   \<and> Entrypoint (fst (updateConfig example_Parse example_Builder example_flags))
       = [''/bin/app'', ''--serve'']
   \<and> Cmd (fst (updateConfig example_Parse example_Builder example_flags))
       = [''/bin/app'', ''--serve'']"
  using entrypoint_cmd_replace [of example_flags example_Parse "[''/bin/app'', ''--serve'']"
          example_Builder "[''/bin/app'', ''--serve'']"]
  by (simp add: example_flags_def example_Parse_def)

lemma genSplit_eq:
  "genSplit before s =
     (if CHR ''='' \<in> set s
      then [before @ takeWhile (\<lambda>x. x \<noteq> CHR ''='') s, tl (dropWhile (\<lambda>x. x \<noteq> CHR ''='') s)]
      else [before @ s])"
  by (induction s arbitrary: before) auto

lemma set_or_delete_eq: "set_or_delete entry m = spec_set_or_delete entry m"
  by (simp add: set_or_delete_def spec_set_or_delete_def SplitN_def genSplit_eq)

lemma Labels_updateConfig:
  "Labels (fst (updateConfig Parse b c)) =
     (if IsSet c ''label''
      then Some (fold set_or_delete (StringSlice c ''label'') (make_if_nil (Labels b)))
      else Labels b)"
  by (simp add: updateConfig_fst) (simp add: update_label_def)

lemma Annotations_updateConfig:
  "Annotations (fst (updateConfig Parse b c)) =
     (if IsSet c ''annotation''
      then Some (fold set_or_delete (StringSlice c ''annotation'')
                   (make_if_nil (Annotations b)))
      else Annotations b)"
  by (simp add: updateConfig_fst) (simp add: update_annotation_def)

lemma fold_set_or_delete:
  "fold set_or_delete entries m = fold spec_set_or_delete entries m"
  by (rule arg_cong [where f = "\<lambda>f. fold f entries m"]) (simp add: fun_eq_iff set_or_delete_eq)

lemma label_example:
  "fold spec_set_or_delete [''a=1'', ''b''] (fmap_of_list [(''b'', ''x''), (''c'', ''y'')])
     = fmap_of_list [(''a'', ''1''), (''c'', ''y'')]"
  by (rule fmap_ext) (simp add: spec_set_or_delete_def)

text \<open>
  Claim C6. When \<^verbatim>\<open>--label\<close> is given, the updated Labels are the existing ones (an empty
  map when there were none) with every entry applied in order as the spec words it: an
  entry with \<open>=\<close> sets the text before the first \<open>=\<close> to the text after it, an entry
  without \<open>=\<close> deletes that key. Annotations are updated in the same way, and the entries
  \<open>a=1\<close>, \<open>b\<close> turn the labels \<open>{b: x, c: y}\<close> into \<open>{a: 1, c: y}\<close>.
\<close>

theorem label_annotation_set_or_delete:
  "(IsSet c ''label'' \<longrightarrow>
      Labels (fst (updateConfig Parse b c))
        = Some (fold spec_set_or_delete (StringSlice c ''label'') (make_if_nil (Labels b))))
   \<and> (IsSet c ''annotation'' \<longrightarrow>
      Annotations (fst (updateConfig Parse b c))
        = Some (fold spec_set_or_delete (StringSlice c ''annotation'')
                  (make_if_nil (Annotations b))))
   \<and> (IsSet c ''label'' \<and> StringSlice c ''label'' = [''a=1'', ''b'']
        \<and> Labels b = Some (fmap_of_list [(''b'', ''x''), (''c'', ''y'')]) \<longrightarrow>
      Labels (fst (updateConfig Parse b c)) = Some (fmap_of_list [(''a'', ''1''), (''c'', ''y'')]))"
proof (intro conjI impI)
  assume "IsSet c ''label''"
  then show "Labels (fst (updateConfig Parse b c))
        = Some (fold spec_set_or_delete (StringSlice c ''label'') (make_if_nil (Labels b)))"
    by (simp add: Labels_updateConfig fold_set_or_delete)
next
  assume "IsSet c ''annotation''"
  then show "Annotations (fst (updateConfig Parse b c))
        = Some (fold spec_set_or_delete (StringSlice c ''annotation'')
                  (make_if_nil (Annotations b)))"
    by (simp add: Annotations_updateConfig fold_set_or_delete)
next
  assume "IsSet c ''label'' \<and> StringSlice c ''label'' = [''a=1'', ''b'']
        \<and> Labels b = Some (fmap_of_list [(''b'', ''x''), (''c'', ''y'')])"
  then show "Labels (fst (updateConfig Parse b c))
        = Some (fmap_of_list [(''a'', ''1''), (''c'', ''y'')])"
    using label_example
    by (simp only: Labels_updateConfig fold_set_or_delete make_if_nil_def if_True option.case)
qed

theorem label_annotation_set_or_delete_witness:
  "IsSet example_flags ''label'' \<and> IsSet example_flags ''annotation''
   \<and> StringSlice example_flags ''label'' = [''a=1'', ''b'']
   \<and> Labels example_Builder = Some (fmap_of_list [(''b'', ''x''), (''c'', ''y'')])
   \<and> Labels (fst (updateConfig example_Parse example_Builder example_flags))
       = Some (fmap_of_list [(''a'', ''1''), (''c'', ''y'')])
   \<and> Annotations (fst (updateConfig example_Parse example_Builder example_flags))
       = Some (fold spec_set_or_delete (StringSlice example_flags ''annotation'')
                 (make_if_nil (Annotations example_Builder)))"
proof -
  have h1: "IsSet example_flags ''label''" and h2: "IsSet example_flags ''annotation''"
    and h3: "StringSlice example_flags ''label'' = [''a=1'', ''b'']"
    by (simp_all add: example_flags_def)
  have h4: "Labels example_Builder = Some (fmap_of_list [(''b'', ''x''), (''c'', ''y'')])"
    by (simp add: example_Builder_def)
  show ?thesis
    using label_annotation_set_or_delete [of example_flags example_Parse example_Builder]
      h1 h2 h3 h4 by blast
qed











lemma Maintainer_updateConfig:
  "Maintainer (fst (updateConfig Parse b c)) =
     (if IsSet c ''author'' then String c ''author'' else Maintainer b)"
  by (simp add: updateConfig_fst) (simp add: update_author_def)

lemma CreatedBy_updateConfig:
  "CreatedBy (fst (updateConfig Parse b c)) =
     (if IsSet c ''created-by'' then String c ''created-by'' else CreatedBy b)"
  by (simp add: updateConfig_fst) (simp add: update_created_by_def)

lemma Architecture_updateConfig:
  "Architecture (fst (updateConfig Parse b c)) =
     (if IsSet c ''arch'' then String c ''arch'' else Architecture b)"
  by (simp add: updateConfig_fst) (simp add: update_arch_def)

lemma OS_updateConfig:
  "OS (fst (updateConfig Parse b c)) =
     (if IsSet c ''os'' then String c ''os'' else OS b)"
  by (simp add: updateConfig_fst) (simp add: update_os_def)

lemma User_updateConfig:
  "User (fst (updateConfig Parse b c)) =
     (if IsSet c ''user'' then String c ''user'' else User b)"
  by (simp add: updateConfig_fst) (simp add: update_user_def)

lemma Workdir_updateConfig:
  "Workdir (fst (updateConfig Parse b c)) =
     (if IsSet c ''workingdir'' then String c ''workingdir'' else Workdir b)"
  by (simp add: updateConfig_fst) (simp add: update_workingdir_def)

lemma Expose_updateConfig:
  "Expose (fst (updateConfig Parse b c)) =
     (if IsSet c ''port''
      then Some (fold (\<lambda>portSpec m. fmupd portSpec EmptyStruct m)
                   (StringSlice c ''port'') (make_if_nil (Expose b)))
      else Expose b)"
  by (simp add: updateConfig_fst) (simp add: update_port_def)

lemma updateConfig_untouched:
  "store (fst (updateConfig Parse b c)) = store b"
  "Type (fst (updateConfig Parse b c)) = Type b"
  "FromImage (fst (updateConfig Parse b c)) = FromImage b"
  "Config (fst (updateConfig Parse b c)) = Config b"
  "Manifest (fst (updateConfig Parse b c)) = Manifest b"
  "Container (fst (updateConfig Parse b c)) = Container b"
  "ContainerID (fst (updateConfig Parse b c)) = ContainerID b"
  "MountPoint (fst (updateConfig Parse b c)) = MountPoint b"
  "Mounts (fst (updateConfig Parse b c)) = Mounts b"
  "Links (fst (updateConfig Parse b c)) = Links b"
  "Arg (fst (updateConfig Parse b c)) = Arg b"
  by (simp_all add: updateConfig_fst)

text \<open>
  Claim C9. A field whose flag is not set keeps its value through updateConfig, and
  Type, FromImage, Config, Manifest, Container, ContainerID, MountPoint, Mounts, Links
  and Arg keep their values whatever the flags are.
\<close>

theorem updateConfig_frame:
  "(\<not> IsSet c ''author'' \<longrightarrow> Maintainer (fst (updateConfig Parse b c)) = Maintainer b)
   \<and> (\<not> IsSet c ''created-by'' \<longrightarrow> CreatedBy (fst (updateConfig Parse b c)) = CreatedBy b)
   \<and> (\<not> IsSet c ''arch'' \<longrightarrow> Architecture (fst (updateConfig Parse b c)) = Architecture b)
   \<and> (\<not> IsSet c ''os'' \<longrightarrow> OS (fst (updateConfig Parse b c)) = OS b)
   \<and> (\<not> IsSet c ''user'' \<longrightarrow> User (fst (updateConfig Parse b c)) = User b)
   \<and> (\<not> IsSet c ''port'' \<longrightarrow> Expose (fst (updateConfig Parse b c)) = Expose b)
   \<and> (\<not> IsSet c ''env'' \<longrightarrow> Env (fst (updateConfig Parse b c)) = Env b)
   \<and> (\<not> IsSet c ''entrypoint'' \<longrightarrow> Entrypoint (fst (updateConfig Parse b c)) = Entrypoint b)
   \<and> (\<not> IsSet c ''cmd'' \<longrightarrow> Cmd (fst (updateConfig Parse b c)) = Cmd b)
   \<and> (\<not> IsSet c ''volume'' \<longrightarrow> Volumes (fst (updateConfig Parse b c)) = Volumes b)
   \<and> (\<not> IsSet c ''label'' \<longrightarrow> Labels (fst (updateConfig Parse b c)) = Labels b)
   \<and> (\<not> IsSet c ''workingdir'' \<longrightarrow> Workdir (fst (updateConfig Parse b c)) = Workdir b)
   \<and> (\<not> IsSet c ''annotation'' \<longrightarrow> Annotations (fst (updateConfig Parse b c)) = Annotations b)
   \<and> Type (fst (updateConfig Parse b c)) = Type b
   \<and> FromImage (fst (updateConfig Parse b c)) = FromImage b
   \<and> Config (fst (updateConfig Parse b c)) = Config b
   \<and> Manifest (fst (updateConfig Parse b c)) = Manifest b
   \<and> Container (fst (updateConfig Parse b c)) = Container b
   \<and> ContainerID (fst (updateConfig Parse b c)) = ContainerID b
   \<and> MountPoint (fst (updateConfig Parse b c)) = MountPoint b
   \<and> Mounts (fst (updateConfig Parse b c)) = Mounts b
   \<and> Links (fst (updateConfig Parse b c)) = Links b
   \<and> Arg (fst (updateConfig Parse b c)) = Arg b"
  by (intro conjI impI) (simp_all only: updateConfig_untouched Maintainer_updateConfig CreatedBy_updateConfig Architecture_updateConfig OS_updateConfig User_updateConfig Expose_updateConfig Env_updateConfig Entrypoint_updateConfig Cmd_updateConfig Volumes_updateConfig Labels_updateConfig Workdir_updateConfig Annotations_updateConfig if_False)

theorem updateConfig_frame_witness:
  "\<not> IsSet no_flags ''author''
   \<and> \<not> IsSet no_flags ''created-by''
   \<and> \<not> IsSet no_flags ''arch''
   \<and> \<not> IsSet no_flags ''os''
   \<and> \<not> IsSet no_flags ''user''
   \<and> \<not> IsSet no_flags ''port''
   \<and> \<not> IsSet no_flags ''env''
   \<and> \<not> IsSet no_flags ''entrypoint''
   \<and> \<not> IsSet no_flags ''cmd''
   \<and> \<not> IsSet no_flags ''volume''
   \<and> \<not> IsSet no_flags ''label''
   \<and> \<not> IsSet no_flags ''workingdir''
   \<and> \<not> IsSet no_flags ''annotation''
   \<and> Maintainer (fst (updateConfig example_Parse example_Builder no_flags)) = Maintainer example_Builder
   \<and> CreatedBy (fst (updateConfig example_Parse example_Builder no_flags)) = CreatedBy example_Builder
   \<and> Architecture (fst (updateConfig example_Parse example_Builder no_flags)) = Architecture example_Builder
   \<and> OS (fst (updateConfig example_Parse example_Builder no_flags)) = OS example_Builder
   \<and> User (fst (updateConfig example_Parse example_Builder no_flags)) = User example_Builder
   \<and> Expose (fst (updateConfig example_Parse example_Builder no_flags)) = Expose example_Builder
   \<and> Env (fst (updateConfig example_Parse example_Builder no_flags)) = Env example_Builder
   \<and> Entrypoint (fst (updateConfig example_Parse example_Builder no_flags)) = Entrypoint example_Builder
   \<and> Cmd (fst (updateConfig example_Parse example_Builder no_flags)) = Cmd example_Builder
   \<and> Volumes (fst (updateConfig example_Parse example_Builder no_flags)) = Volumes example_Builder
   \<and> Labels (fst (updateConfig example_Parse example_Builder no_flags)) = Labels example_Builder
   \<and> Workdir (fst (updateConfig example_Parse example_Builder no_flags)) = Workdir example_Builder
   \<and> Annotations (fst (updateConfig example_Parse example_Builder no_flags)) = Annotations example_Builder
   \<and> Type (fst (updateConfig example_Parse example_Builder no_flags)) = Type example_Builder
   \<and> FromImage (fst (updateConfig example_Parse example_Builder no_flags)) = FromImage example_Builder
   \<and> Config (fst (updateConfig example_Parse example_Builder no_flags)) = Config example_Builder
   \<and> Manifest (fst (updateConfig example_Parse example_Builder no_flags)) = Manifest example_Builder
   \<and> Container (fst (updateConfig example_Parse example_Builder no_flags)) = Container example_Builder
   \<and> ContainerID (fst (updateConfig example_Parse example_Builder no_flags)) = ContainerID example_Builder
   \<and> MountPoint (fst (updateConfig example_Parse example_Builder no_flags)) = MountPoint example_Builder
   \<and> Mounts (fst (updateConfig example_Parse example_Builder no_flags)) = Mounts example_Builder
   \<and> Links (fst (updateConfig example_Parse example_Builder no_flags)) = Links example_Builder
   \<and> Arg (fst (updateConfig example_Parse example_Builder no_flags)) = Arg example_Builder"
proof -
  have unset: "\<not> IsSet no_flags flag" for flag
    by (simp add: no_flags_def)
  show ?thesis
    using updateConfig_frame [of no_flags example_Parse example_Builder]
    by (simp only: unset not_False_eq_True simp_thms)
qed

section \<open>Properties of opening and saving a Builder\<close>

lemma Unmarshal_example_metadata:
  "Unmarshal example_metadata zero_Builder = Inr (Some example_record)"
  by (simp add: example_metadata_def example_record_def decode_object_def zero_Builder_def)

text \<open>
  Claim C2. A state file without the type tag is to be rejected with the "not a buildah
  container" error. The state file holding the JSON literal \<^verbatim>\<open>null\<close> has no type tag;
  on it Unmarshal sets the pointer to nil without an error, and OpenBuilder panics at
  \<^verbatim>\<open>b.Type\<close> instead of returning the error.
\<close>

theorem OpenBuilder_null_panics:
  "OpenBuilder null_fs null_store ''c0'' = Panic"
  by (simp add: OpenBuilder_def null_fs_def null_store_def ReadFile_def Join_def stateFile_def Package_def)

text \<open>
  Claim C5. The scan is to pass over a container whose metadata is not a build
  container's. With a container whose metadata is the JSON literal \<^verbatim>\<open>null\<close> listed
  before the container mounted at the path, OpenBuilderByPath panics at \<^verbatim>\<open>b.Type\<close>
  and never reaches the matching container.
\<close>

theorem OpenBuilderByPath_null_panics:
  "OpenBuilderByPath Inr null_store ''/mnt/c1'' = Panic"
  by (simp add: OpenBuilderByPath_def null_store_def)

lemma contains_iff: "contains xs path \<longleftrightarrow> path \<in> set xs"
  by (induction xs) auto

lemma builderMatchesPath_iff:
  "builderMatchesPath b P \<longleftrightarrow> MountPoint b = P \<or> P \<in> set (Mounts b) \<or> P \<in> set (Links b)"
  by (simp add: builderMatchesPath_def contains_iff)

lemma scan_skip:
  assumes "readable store' container" and "\<not> matching store' P container"
  shows "scan store' P (container # containers) = scan store' P containers"
  using assms
  by (auto simp: readable_def matching_def record_of_def builderMatchesPath_iff
       split: sum.splits option.splits if_splits)

lemma scan_skip_all:
  "list_all (\<lambda>c. readable store' c \<and> \<not> matching store' P c) pre
   \<Longrightarrow> scan store' P (pre @ rest) = scan store' P rest"
  by (induction pre) (simp_all add: scan_skip del: scan.simps)

lemma scan_match:
  assumes "record_of store' container = Some b"
    and "MountPoint b = P \<or> P \<in> set (Mounts b) \<or> P \<in> set (Links b)"
  shows "scan store' P (container # containers) = Ok (b\<lparr>store := Some store'\<rparr>)"
  using assms
  by (auto simp: record_of_def builderMatchesPath_iff split: sum.splits option.splits if_splits)

lemma scan_read_error:
  assumes "GetMetadata store' (ID container) = Inl err"
  shows "scan store' P (container # containers) = Error err"
  using assms by simp

text \<open>
  Claim C3, as amended. An error of \<^verbatim>\<open>store.Containers()\<close> is returned as it is, and
  after a successful listing so is an error of \<^verbatim>\<open>filepath.Abs\<close>. When the Store lists
  its containers and the path absolutizes to \<open>P\<close>, let every container listed before
  \<open>container\<close> have metadata that GetMetadata returns, that is not the literal \<^verbatim>\<open>null\<close>
  and that does not decode to a build-container record matching \<open>P\<close>. Then: if
  GetMetadata fails for \<open>container\<close>, that error is returned as it is; if \<open>container\<close>
  decodes to the build-container record \<open>b\<close> with MountPoint \<open>P\<close> or \<open>P\<close> among its Mounts
  or Links, OpenBuilderByPath returns \<open>b\<close> (with the store handle set): the first match
  in the order of the listing, and so the only match when there is one. If the condition
  holds of every listed container, the result is ErrContainerUnknown.
\<close>

theorem OpenBuilderByPath_first_match:
  "(Containers store' = Inl err \<longrightarrow> OpenBuilderByPath Abs store' path = Error err)
   \<and> (Containers store' = Inr containers \<and> Abs path = Inl err
        \<longrightarrow> OpenBuilderByPath Abs store' path = Error err)
   \<and> (Containers store' = Inr containers \<and> Abs path = Inr P
        \<and> containers = pre @ container # post
        \<and> list_all (\<lambda>c. readable store' c \<and> \<not> matching store' P c) pre
        \<and> GetMetadata store' (ID container) = Inl err
        \<longrightarrow> OpenBuilderByPath Abs store' path = Error err)
   \<and> (Containers store' = Inr containers \<and> Abs path = Inr P
        \<and> containers = pre @ container # post
        \<and> list_all (\<lambda>c. readable store' c \<and> \<not> matching store' P c) pre
        \<and> record_of store' container = Some b
        \<and> (MountPoint b = P \<or> P \<in> set (Mounts b) \<or> P \<in> set (Links b))
        \<longrightarrow> OpenBuilderByPath Abs store' path = Ok (b\<lparr>store := Some store'\<rparr>))
   \<and> (Containers store' = Inr containers \<and> Abs path = Inr P
        \<and> list_all (\<lambda>c. readable store' c \<and> \<not> matching store' P c) containers
        \<longrightarrow> OpenBuilderByPath Abs store' path = Error ErrContainerUnknown)"
proof (intro conjI impI)
  assume "Containers store' = Inl err"
  then show "OpenBuilderByPath Abs store' path = Error err"
    by (simp add: OpenBuilderByPath_def)
next
  assume "Containers store' = Inr containers \<and> Abs path = Inl err"
  then show "OpenBuilderByPath Abs store' path = Error err"
    by (simp add: OpenBuilderByPath_def)
next
  assume h: "Containers store' = Inr containers \<and> Abs path = Inr P
        \<and> containers = pre @ container # post
        \<and> list_all (\<lambda>c. readable store' c \<and> \<not> matching store' P c) pre
        \<and> GetMetadata store' (ID container) = Inl err"
  then have "scan store' P containers = scan store' P (container # post)"
    by (simp add: scan_skip_all del: scan.simps)
  also have "\<dots> = Error err"
    using h by (simp add: scan_read_error del: scan.simps)
  finally show "OpenBuilderByPath Abs store' path = Error err"
    using h by (simp add: OpenBuilderByPath_def)
next
  assume h: "Containers store' = Inr containers \<and> Abs path = Inr P
        \<and> containers = pre @ container # post
        \<and> list_all (\<lambda>c. readable store' c \<and> \<not> matching store' P c) pre
        \<and> record_of store' container = Some b
        \<and> (MountPoint b = P \<or> P \<in> set (Mounts b) \<or> P \<in> set (Links b))"
  then have "scan store' P containers = scan store' P (container # post)"
    by (simp add: scan_skip_all del: scan.simps)
  also have "\<dots> = Ok (b\<lparr>store := Some store'\<rparr>)"
    using h by (simp add: scan_match del: scan.simps)
  finally show "OpenBuilderByPath Abs store' path = Ok (b\<lparr>store := Some store'\<rparr>)"
    using h by (simp add: OpenBuilderByPath_def)
next
  assume h: "Containers store' = Inr containers \<and> Abs path = Inr P
        \<and> list_all (\<lambda>c. readable store' c \<and> \<not> matching store' P c) containers"
  then have "scan store' P (containers @ []) = scan store' P []"
    by (simp only: scan_skip_all)
  then show "OpenBuilderByPath Abs store' path = Error ErrContainerUnknown"
    using h by (simp add: OpenBuilderByPath_def)
qed

lemma Unmarshal_foreign_metadata:
  "Unmarshal foreign_metadata zero_Builder
     = Inr (Some (zero_Builder\<lparr>Type := ''other tool'', MountPoint := ''/mnt/c1''\<rparr>))"
  by (simp add: foreign_metadata_def decode_object_def zero_Builder_def)

lemma record_of_mixed_c1: "record_of mixed_store \<lparr>ID = ''c1''\<rparr> = Some example_record"
  by (simp add: record_of_def mixed_store_def Unmarshal_example_metadata)
     (simp add: example_record_def containerType_def Package_def)

theorem OpenBuilderByPath_first_match_witness:
  "Containers unlisted_store = Inl (StoreError ''cannot load containers'')
   \<and> OpenBuilderByPath Inr unlisted_store ''/mnt/c1''
       = Error (StoreError ''cannot load containers'')
   \<and> Containers mixed_store
       = Inr [\<lparr>ID = ''c0''\<rparr>, \<lparr>ID = ''c2''\<rparr>, \<lparr>ID = ''c1''\<rparr>, \<lparr>ID = ''c3''\<rparr>]
   \<and> no_working_directory ''mnt/c1'' = Inl (PathError ''getwd'')
   \<and> OpenBuilderByPath no_working_directory mixed_store ''mnt/c1'' = Error (PathError ''getwd'')
   \<and> Containers failing_store = Inr [\<lparr>ID = ''c0''\<rparr>, \<lparr>ID = ''c1''\<rparr>]
   \<and> GetMetadata failing_store (ID \<lparr>ID = ''c0''\<rparr>) = Inl (StoreError ''cannot load container'')
   \<and> OpenBuilderByPath Inr failing_store ''/mnt/c1''
       = Error (StoreError ''cannot load container'')
   \<and> list_all (\<lambda>c. readable mixed_store c \<and> \<not> matching mixed_store ''/mnt/c1'' c)
        [\<lparr>ID = ''c0''\<rparr>, \<lparr>ID = ''c2''\<rparr>]
   \<and> record_of mixed_store \<lparr>ID = ''c1''\<rparr> = Some example_record
   \<and> MountPoint example_record = ''/mnt/c1''
   \<and> OpenBuilderByPath Inr mixed_store ''/mnt/c1''
       = Ok (example_record\<lparr>store := Some mixed_store\<rparr>)
   \<and> list_all (\<lambda>c. readable mixed_store c \<and> \<not> matching mixed_store ''/nowhere'' c)
        [\<lparr>ID = ''c0''\<rparr>, \<lparr>ID = ''c2''\<rparr>, \<lparr>ID = ''c1''\<rparr>, \<lparr>ID = ''c3''\<rparr>]
   \<and> OpenBuilderByPath Inr mixed_store ''/nowhere'' = Error ErrContainerUnknown"
proof -
  have ul: "Containers unlisted_store = Inl (StoreError ''cannot load containers'')"
    by (simp add: unlisted_store_def)
  have cs: "Containers mixed_store
       = Inr [\<lparr>ID = ''c0''\<rparr>, \<lparr>ID = ''c2''\<rparr>, \<lparr>ID = ''c1''\<rparr>, \<lparr>ID = ''c3''\<rparr>]"
    by (simp add: mixed_store_def)
  have split: "[\<lparr>ID = ''c0''\<rparr>, \<lparr>ID = ''c2''\<rparr>, \<lparr>ID = ''c1''\<rparr>, \<lparr>ID = ''c3''\<rparr>]
       = [\<lparr>ID = ''c0''\<rparr>, \<lparr>ID = ''c2''\<rparr>] @ \<lparr>ID = ''c1''\<rparr> # [\<lparr>ID = ''c3''\<rparr>]"
    by simp
  have wd: "no_working_directory ''mnt/c1'' = Inl (PathError ''getwd'')"
    by (simp add: no_working_directory_def)
  have fs: "Containers failing_store = Inr [\<lparr>ID = ''c0''\<rparr>, \<lparr>ID = ''c1''\<rparr>]"
    by (simp add: failing_store_def null_store_def)
  have fsplit: "[\<lparr>ID = ''c0''\<rparr>, \<lparr>ID = ''c1''\<rparr>] = [] @ \<lparr>ID = ''c0''\<rparr> # [\<lparr>ID = ''c1''\<rparr>]"
    by simp
  have fm: "GetMetadata failing_store (ID \<lparr>ID = ''c0''\<rparr>)
              = Inl (StoreError ''cannot load container'')"
    by (simp add: failing_store_def)
  have none: "list_all (\<lambda>c. readable failing_store c \<and> \<not> matching failing_store ''/mnt/c1'' c) []"
    by simp
  have m0: "GetMetadata mixed_store ''c0'' = Inr Malformed"
    and m2: "GetMetadata mixed_store ''c2'' = Inr foreign_metadata"
    and m1: "GetMetadata mixed_store ''c1'' = Inr example_metadata"
    and m3: "GetMetadata mixed_store ''c3'' = Inr linked_metadata"
    by (simp_all add: mixed_store_def)
  have u3: "Unmarshal linked_metadata zero_Builder
     = Inr (Some (zero_Builder\<lparr>Type := ''buildah 0.0.0'', ContainerID := ''c3'',
                    MountPoint := ''/mnt/c3'', Links := [''/mnt/c1'']\<rparr>))"
    by (simp add: linked_metadata_def decode_object_def zero_Builder_def)
  have pre: "list_all (\<lambda>c. readable mixed_store c \<and> \<not> matching mixed_store ''/mnt/c1'' c)
        [\<lparr>ID = ''c0''\<rparr>, \<lparr>ID = ''c2''\<rparr>]"
    by (simp add: readable_def matching_def record_of_def m0 m2 Unmarshal_foreign_metadata
          containerType_def Package_def)
  have all: "list_all (\<lambda>c. readable mixed_store c \<and> \<not> matching mixed_store ''/nowhere'' c)
        [\<lparr>ID = ''c0''\<rparr>, \<lparr>ID = ''c2''\<rparr>, \<lparr>ID = ''c1''\<rparr>, \<lparr>ID = ''c3''\<rparr>]"
    by (simp add: readable_def matching_def record_of_def m0 m1 m2 m3 u3
          Unmarshal_foreign_metadata Unmarshal_example_metadata containerType_def Package_def)
       (simp add: example_record_def zero_Builder_def)
  have mp: "MountPoint example_record = ''/mnt/c1''"
    by (simp add: example_record_def)
  have a1: "(Inr ''/mnt/c1'' :: error + string) = Inr ''/mnt/c1''"
    and a2: "(Inr ''/nowhere'' :: error + string) = Inr ''/nowhere''" by simp_all
  have r1: "OpenBuilderByPath Inr unlisted_store ''/mnt/c1''
       = Error (StoreError ''cannot load containers'')"
    using OpenBuilderByPath_first_match [where store' = unlisted_store
            and err = "StoreError ''cannot load containers''" and Abs = Inr
            and path = "''/mnt/c1''"] ul by blast
  have r2: "OpenBuilderByPath no_working_directory mixed_store ''mnt/c1''
       = Error (PathError ''getwd'')"
    using OpenBuilderByPath_first_match [where store' = mixed_store
            and err = "PathError ''getwd''" and Abs = no_working_directory
            and path = "''mnt/c1''"
            and containers = "[\<lparr>ID = ''c0''\<rparr>, \<lparr>ID = ''c2''\<rparr>, \<lparr>ID = ''c1''\<rparr>, \<lparr>ID = ''c3''\<rparr>]"]
          cs wd by blast
  have r3: "OpenBuilderByPath Inr failing_store ''/mnt/c1''
       = Error (StoreError ''cannot load container'')"
    using OpenBuilderByPath_first_match [where store' = failing_store
            and err = "StoreError ''cannot load container''" and Abs = Inr
            and path = "''/mnt/c1''" and P = "''/mnt/c1''"
            and containers = "[\<lparr>ID = ''c0''\<rparr>, \<lparr>ID = ''c1''\<rparr>]"
            and pre = "[]" and container = "\<lparr>ID = ''c0''\<rparr>" and post = "[\<lparr>ID = ''c1''\<rparr>]"]
          fs fsplit fm none a1 by blast
  have r4: "OpenBuilderByPath Inr mixed_store ''/mnt/c1''
       = Ok (example_record\<lparr>store := Some mixed_store\<rparr>)"
    using OpenBuilderByPath_first_match [where store' = mixed_store and Abs = Inr
            and path = "''/mnt/c1''" and P = "''/mnt/c1''"
            and containers = "[\<lparr>ID = ''c0''\<rparr>, \<lparr>ID = ''c2''\<rparr>, \<lparr>ID = ''c1''\<rparr>, \<lparr>ID = ''c3''\<rparr>]"
            and pre = "[\<lparr>ID = ''c0''\<rparr>, \<lparr>ID = ''c2''\<rparr>]" and container = "\<lparr>ID = ''c1''\<rparr>"
            and post = "[\<lparr>ID = ''c3''\<rparr>]" and b = example_record]
          cs split pre record_of_mixed_c1 mp a1 by blast
  have r5: "OpenBuilderByPath Inr mixed_store ''/nowhere'' = Error ErrContainerUnknown"
    using OpenBuilderByPath_first_match [where store' = mixed_store and Abs = Inr
            and path = "''/nowhere''" and P = "''/nowhere''"
            and containers = "[\<lparr>ID = ''c0''\<rparr>, \<lparr>ID = ''c2''\<rparr>, \<lparr>ID = ''c1''\<rparr>, \<lparr>ID = ''c3''\<rparr>]"]
          cs all a2 by blast
  show ?thesis
    by (intro conjI) (rule ul r1 cs wd r2 fs fm r3 pre record_of_mixed_c1 mp r4 all r5)+
qed

text \<open>
  Claim C3 as stated fails where GetMetadata returns an error for a container listed
  before the match: the scan stops with that error, although exactly one record matches;
  and with no match it returns that error, not ErrContainerUnknown.
\<close>

theorem OpenBuilderByPath_store_error_counterexample:
  "record_of failing_store \<lparr>ID = ''c1''\<rparr> = Some example_record
   \<and> MountPoint example_record = ''/mnt/c1''
   \<and> record_of failing_store \<lparr>ID = ''c0''\<rparr> = None
   \<and> OpenBuilderByPath Inr failing_store ''/mnt/c1''
       = Error (StoreError ''cannot load container'')
   \<and> OpenBuilderByPath Inr failing_store ''/mnt/c1''
       \<noteq> Ok (example_record\<lparr>store := Some failing_store\<rparr>)
   \<and> OpenBuilderByPath Inr failing_store ''/nowhere'' \<noteq> Error ErrContainerUnknown"
  by (simp add: OpenBuilderByPath_def failing_store_def null_store_def record_of_def
        Unmarshal_example_metadata)
     (simp add: example_record_def containerType_def Package_def)

lemma OpenBuilder_Ok_Type: "OpenBuilder fs store' container = Ok b \<Longrightarrow> Type b = containerType"
  by (auto simp: OpenBuilder_def split: sum.splits option.splits if_splits)

lemma OpenBuilder_type_mismatch:
  assumes "GetContainerDirectory store' container = Inr cdir"
    and "ReadFile fs (Join cdir stateFile) = Inr buildstate"
    and "Unmarshal buildstate zero_Builder = Inr (Some b)"
    and "Type b \<noteq> containerType"
  shows "OpenBuilder fs store' container = Error NotBuildahContainer"
  using assms by (simp add: OpenBuilder_def)

lemma scan_skips_foreign:
  assumes "GetMetadata store' (ID container) = Inr buildstate"
    and "Unmarshal buildstate zero_Builder = Inl err
         \<or> (\<exists>b. Unmarshal buildstate zero_Builder = Inr (Some b) \<and> Type b \<noteq> containerType)"
  shows "scan store' P (container # containers) = scan store' P containers"
  using assms by auto

text \<open>
  Claim C4. For every fault and every file other than the temporary one: when Save
  returns an error the file holds what it held before; whatever happens, the file holds
  either what it held before or the complete encoding of the Builder; and when Save
  returns nil the state file holds the complete encoding.
\<close>

theorem Save_all_or_nothing:
  assumes "path \<noteq> tmp"
  shows "(fst (Save fault tmp fs b) = Error err \<longrightarrow> snd (Save fault tmp fs b) path = fs path)
       \<and> (snd (Save fault tmp fs b) path = fs path
          \<or> (\<exists>buildstate. Marshal b = Inr buildstate
                \<and> snd (Save fault tmp fs b) path = Some buildstate))
       \<and> (fst (Save fault tmp fs b) = Ok () \<longrightarrow>
            (\<exists>store' cdir buildstate. store b = Some store'
               \<and> GetContainerDirectory store' (ContainerID b) = Inr cdir
               \<and> Marshal b = Inr buildstate
               \<and> snd (Save fault tmp fs b) (Join cdir stateFile) = Some buildstate))"
proof (cases "Marshal b")
  case (Inl e)
  then show ?thesis by (simp add: Save_def)
next
  case (Inr buildstate)
  show ?thesis
  proof (cases "store b")
    case None
    with Inr show ?thesis by (simp add: Save_def)
  next
    case (Some store')
    show ?thesis
    proof (cases "GetContainerDirectory store' (ContainerID b)")
      case (Inl e)
      with Inr Some show ?thesis by (simp add: Save_def)
    next
      case cdir: (Inr cdir)
      have "Save fault tmp fs b = AtomicWriteFile fault tmp fs (Join cdir stateFile) buildstate"
        using Inr Some cdir by (simp add: Save_def)
      then show ?thesis
        using assms Inr Some cdir by (cases fault) auto
    qed
  qed
qed

theorem Save_all_or_nothing_witness:
  "''/run/c1/buildah.json'' \<noteq> example_tmp
   \<and> fst (Save (WriteFails Malformed no_space) example_tmp null_fs stored_Builder) = Error no_space
   \<and> snd (Save (WriteFails Malformed no_space) example_tmp null_fs stored_Builder)
         ''/run/c1/buildah.json'' = null_fs ''/run/c1/buildah.json''
   \<and> fst (Save NoFault example_tmp null_fs unencodable_Builder) = Error EncodeError
   \<and> snd (Save NoFault example_tmp null_fs unencodable_Builder)
         ''/run/c1/buildah.json'' = null_fs ''/run/c1/buildah.json''
   \<and> fst (Save NoFault example_tmp null_fs unknown_Builder) = Error ErrContainerUnknown
   \<and> snd (Save NoFault example_tmp null_fs unknown_Builder)
         ''/run/c1/buildah.json'' = null_fs ''/run/c1/buildah.json''
   \<and> fst (Save NoFault example_tmp null_fs stored_Builder) = Ok ()
   \<and> snd (Save NoFault example_tmp null_fs stored_Builder) (Join ''/run/c1'' stateFile)
       = Some (Json (JObject (fmap_of_list (members stored_Builder))))"
proof -
  have neq: "''/run/c1/buildah.json'' \<noteq> example_tmp"
    by (simp add: example_tmp_def)
  have m: "Marshal stored_Builder = Inr (Json (JObject (fmap_of_list (members stored_Builder))))"
    by (simp add: Marshal_def stored_Builder_def example_record_def zero_Builder_def
          make_if_nil_def)
  have st: "store stored_Builder = Some null_store"
    and dir: "GetContainerDirectory null_store (ContainerID stored_Builder) = Inr ''/run/c1''"
    by (simp_all add: stored_Builder_def example_record_def null_store_def)
  have w: "fst (Save (WriteFails Malformed no_space) example_tmp null_fs stored_Builder)
             = Error no_space"
    by (simp add: Save_def m st dir)
  have e: "fst (Save NoFault example_tmp null_fs unencodable_Builder) = Error EncodeError"
    by (auto simp: Save_def Marshal_def unencodable_Builder_def make_if_nil_def encodable_def
          fmpred_iff)
  have u: "fst (Save NoFault example_tmp null_fs unknown_Builder) = Error ErrContainerUnknown"
    by (simp add: Save_def Marshal_def unknown_Builder_def example_record_def zero_Builder_def
          make_if_nil_def null_store_def)
  have ok: "fst (Save NoFault example_tmp null_fs stored_Builder) = Ok ()"
    by (simp add: Save_def m st dir)
  show ?thesis
    using Save_all_or_nothing [OF neq, of "WriteFails Malformed no_space" null_fs
            stored_Builder no_space]
          Save_all_or_nothing [OF neq, of NoFault null_fs unencodable_Builder EncodeError]
          Save_all_or_nothing [OF neq, of NoFault null_fs unknown_Builder ErrContainerUnknown]
          Save_all_or_nothing [OF neq, of NoFault null_fs stored_Builder no_space]
          neq w e u ok m st dir
    by auto
qed

section \<open>Properties of the metadata encoding\<close>

subsection \<open>base64: decoding what was encoded\<close>


lemma length_encodeStd: "length encodeStd = 64"
  by (simp add: encodeStd_def)




lemma encodeStd_no_newline:
  "i < 64 \<Longrightarrow> encodeStd ! i \<noteq> CHR 0x0A \<and> encodeStd ! i \<noteq> CHR 0x0D"
proof -
  assume "i < 64"
  then have "encodeStd ! i \<in> set encodeStd"
    by (simp add: length_encodeStd)
  moreover have "CHR 0x0A \<notin> set encodeStd" and "CHR 0x0D \<notin> set encodeStd"
    by (simp_all add: encodeStd_def)
  ultimately show ?thesis by metis
qed













subsection \<open>Decoding what Marshal wrote\<close>




















end
